theory Spec2Isabelle
  imports Main "HOL-Library.AList" "HOL-Library.Word"
begin

section \<open>Errors of the adapter package\<close>

text \<open>
  Modelled from the spec: the error constructors \<open>ErrSmiInit\<close>, \<open>ErrInstallSmi\<close>,
  \<open>ErrConnectSmi\<close>, \<open>ErrRunSmi\<close>, \<open>ErrDeleteSmi\<close>, \<open>ErrValidateKubeconfig\<close> and the
  value \<open>ErrAuthInfosInvalidMsg\<close> are declared in the package's error file, which is not
  among the sources. Each one is a label wrapped around its cause, as section 7 of the
  specification describes them. \<open>Cause msg\<close> is an error value handed back by a
  collaborator outside the package, identified by its message.
\<close>

datatype error =
    Cause string
  | ErrAuthInfosInvalidMsg
  | ErrValidateKubeconfig error
  | ErrSmiInit string
  | ErrInstallSmi error
  | ErrConnectSmi error
  | ErrRunSmi error
  | ErrDeleteSmi error

section \<open>Kubeconfig validation (configure.go)\<close>

text \<open>
  \<open>clientcmdapi.AuthInfo\<close> and \<open>clientcmdapi.Config\<close> belong to the Kubernetes client
  library. The fields the adapter reads are modelled; a record's extension part stands
  for the others. A Go map is an association list whose keys are distinct; the order of
  the list is the order in which \<open>range\<close> happens to visit the entries.
\<close>

type_synonym byte = "8 word"

record AuthInfo =
  ClientCertificate :: string
  ClientCertificateData :: "byte list"

type_synonym authInfos = "(string \<times> AuthInfo) list"

record Config =
  AuthInfos :: authInfos
  CurrentContext :: string

text \<open>
  The loop of \<open>filterK8sConfigAuthInfos\<close>. The first list holds the entries that
  \<open>range\<close> still has to visit, the second one is the map being mutated. \<open>stat\<close> is
  \<open>os.Stat\<close>, reduced to the error it returns.
\<close>

fun range_authInfos ::
  "(string \<Rightarrow> string option) \<Rightarrow> authInfos \<Rightarrow> authInfos \<Rightarrow> authInfos" where
  "range_authInfos stat [] authInfos = authInfos"
| "range_authInfos stat ((key, authInfo) # rest) authInfos =
     (if length (ClientCertificateData authInfo) = 0 then
        (case stat (ClientCertificate authInfo) of
           Some err \<Rightarrow> range_authInfos stat rest (AList.delete key authInfos)
         | None \<Rightarrow> range_authInfos stat rest authInfos)
      else range_authInfos stat rest authInfos)"

text \<open>
  The function mutates the map it is given and returns an error or nil; the model
  returns both the error and the map as it is left.
\<close>

definition filterK8sConfigAuthInfos ::
  "(string \<Rightarrow> string option) \<Rightarrow> authInfos \<Rightarrow> error option \<times> authInfos" where
  "filterK8sConfigAuthInfos stat authInfos =
     (let authInfos' = range_authInfos stat authInfos authInfos in
      if length authInfos' = 0 then (Some ErrAuthInfosInvalidMsg, authInfos')
      else (None, authInfos'))"

text \<open>
  The collaborators of \<open>validateKubeconfig\<close>: \<open>clientcmd.Load\<close>, \<open>os.Stat\<close>,
  \<open>clientcmdapi.FlattenConfig\<close> and \<open>clientcmdapi.MinifyConfig\<close>. The last two change
  the configuration in place and may fail; here they return the changed configuration
  or the message of their error.
\<close>

record kube_env =
  clientcmd_Load :: "byte list \<Rightarrow> string + Config"
  os_Stat :: "string \<Rightarrow> string option"
  clientcmdapi_FlattenConfig :: "Config \<Rightarrow> string + Config"
  clientcmdapi_MinifyConfig :: "Config \<Rightarrow> string + Config"

text \<open>
  \<open>validateKubeconfig\<close> returns an error, or stores the configuration in the adapter's
  \<open>ClientcmdConfig\<close> field and returns nil: the model returns the error or the stored
  configuration.
\<close>

definition validateKubeconfig :: "kube_env \<Rightarrow> byte list \<Rightarrow> error + Config" where
  "validateKubeconfig k kubeconfig =
     (case clientcmd_Load k kubeconfig of
        Inl err \<Rightarrow> Inl (ErrValidateKubeconfig (Cause err))
      | Inr clientcmdConfig \<Rightarrow>
          (case filterK8sConfigAuthInfos (os_Stat k) (AuthInfos clientcmdConfig) of
             (Some err, authInfos) \<Rightarrow> Inl (ErrValidateKubeconfig err)
           | (None, authInfos) \<Rightarrow>
               (case clientcmdapi_FlattenConfig k (clientcmdConfig\<lparr>AuthInfos := authInfos\<rparr>) of
                  Inl err \<Rightarrow> Inl (ErrValidateKubeconfig (Cause err))
                | Inr flattened \<Rightarrow>
                    (case clientcmdapi_MinifyConfig k flattened of
                       Inl err \<Rightarrow> Inl (ErrValidateKubeconfig (Cause err))
                     | Inr minified \<Rightarrow> Inr minified))))"

text \<open>An entry that the loop deletes: no inline certificate data and a path that \<open>os.Stat\<close> rejects.\<close>

definition unusable :: "(string \<Rightarrow> string option) \<Rightarrow> AuthInfo \<Rightarrow> bool" where
  "unusable stat authInfo =
     (length (ClientCertificateData authInfo) = 0 \<and> stat (ClientCertificate authInfo) \<noteq> None)"

definition deleted_keys :: "(string \<Rightarrow> string option) \<Rightarrow> authInfos \<Rightarrow> string set" where
  "deleted_keys stat entries = fst ` {e \<in> set entries. unusable stat (snd e)}"

section \<open>The SMI conformance run (smi.go)\<close>

subsection \<open>Data\<close>

text \<open>\<open>context.Context\<close> is opaque to the adapter: a token that is passed on.\<close>

type_synonym Context = string

text \<open>
  The messages of the conformance tool's protocol (package \<open>conformance\<close>, outside the
  repository) with the fields the adapter reads and writes.

  Modelled from the spec: the declaration of the tool's per-assertion record is not among
  the sources. Section 3 of the specification lists a specification version among the
  items of an assertion's outcome as the remote tool produces it; it is the field
  \<open>Specversion\<close> here. The other fields are the ones \<open>runConformanceTest\<close> reads.
\<close>

record conformance_Request =
  Annotations :: "string \<rightharpoonup> string"
  Labels :: "string \<rightharpoonup> string"
  Meshname :: string
  Meshversion :: string

record conformance_Detail =
  Smispec :: string
  Specversion :: string
  Time :: string
  Assertions :: string
  Result :: string
  Reason :: string
  Capability :: string
  Status :: string

record conformance_Response =
  Casespassed :: string
  Passpercent :: string
  Details :: "conformance_Detail list"

text \<open>\<open>mesherykube.ApplyOptions\<close> and \<open>mesherykube.Endpoint\<close>, with the fields used.\<close>

record ApplyOptions =
  Namespace :: string
  Delete :: bool

record Endpoint =
  Address :: string
  Port :: int

text \<open>
  \<open>SMITest\<close>. The field \<open>id\<close> is \<open>id_smi\<close> here. The field \<open>kclient\<close> is a handle on the
  cluster client; what its methods do is part of the collaborators below.
\<close>

record SMITest =
  id_smi :: string
  adaptorVersion :: string
  adaptorName :: string
  ctx :: Context
  smiAddress :: string
  annotations :: "string \<rightharpoonup> string"
  labels :: "string \<rightharpoonup> string"

record Detail =
  SmiSpecification :: string
  SmiVersion :: string
  Time :: string
  Assertions :: string
  Result :: string
  Reason :: string
  Capability :: string
  Status :: string

record Response =
  ID :: string
  Date :: string
  MeshName :: string
  MeshVersion :: string
  CasesPassed :: string
  PassingPercentage :: string
  Status :: string
  MoreDetails :: "Detail list"

text \<open>The zero value \<open>Response{}\<close>.\<close>

definition Response_zero :: Response where
  "Response_zero =
     \<lparr>ID = [], Date = [], MeshName = [], MeshVersion = [], CasesPassed = [],
      PassingPercentage = [], Response.Status = [], MoreDetails = []\<rparr>"

record SMITestOptions =
  Ctx :: Context
  OperationID :: string
  Namespace :: string
  Manifest :: string
  Labels :: "string \<rightharpoonup> string"
  Annotations :: "string \<rightharpoonup> string"

text \<open>
  The adapter, as far as \<open>RunSMITest\<close> reads it: what \<open>GetName\<close> and \<open>GetVersion\<close>
  return. Its \<open>KubeClient\<close> and \<open>RestConfig\<close> go to \<open>mesherykube.New\<close>, a collaborator.
\<close>

record Adapter =
  GetName :: string
  GetVersion :: string

subsection \<open>Collaborators and the record of their calls\<close>

text \<open>
  Every call that leaves the package is recorded together with the phase whose code
  makes it: \<open>Deploying\<close> is the body of \<open>RunSMITest\<close> before the first phase, the other
  four are \<open>installConformanceTool\<close>, \<open>connectConformanceTool\<close>, \<open>runConformanceTest\<close> and
  \<open>deleteConformanceTool\<close>.
\<close>

datatype phase = Deploying | Installing | Connecting | Running | Deleting

datatype call =
    Call_New
  | Call_ReadRemoteFile string
  | Call_ApplyManifest string ApplyOptions
  | Call_Sleep nat
  | Call_GetServiceEndpoint Context string string
  | Call_CreateClient string
  | Call_RunTest conformance_Request
  | Call_Close

type_synonym event = "phase \<times> call"

text \<open>
  What a collaborator answers may depend on everything that was called before, so each
  one takes the calls made so far. A failure is the message of the Go error.
  \<open>time_Now\<close> is \<open>time.Now().Format(time.RFC3339)\<close>.
\<close>

record smi_env =
  mesherykube_New :: "event list \<Rightarrow> string option"
  time_Now :: "event list \<Rightarrow> string"
  utils_ReadRemoteFile :: "event list \<Rightarrow> string \<Rightarrow> string + string"
  kclient_ApplyManifest :: "event list \<Rightarrow> string \<Rightarrow> ApplyOptions \<Rightarrow> string option"
  kclient_GetServiceEndpoint :: "event list \<Rightarrow> Context \<Rightarrow> string \<Rightarrow> string \<Rightarrow> string + Endpoint"
  conformance_CreateClient :: "event list \<Rightarrow> string \<Rightarrow> string option"
  CClient_RunTest :: "event list \<Rightarrow> conformance_Request \<Rightarrow> string + conformance_Response"
  cClient_Close :: "event list \<Rightarrow> string option"

subsection \<open>Formatting\<close>

text \<open>The verb \<open>%d\<close> of \<open>fmt.Sprintf\<close>: a decimal numeral, with a sign when negative.\<close>

fun decimal :: "nat \<Rightarrow> string" where
  "decimal n =
     (if n < 10 then [''0123456789'' ! n]
      else decimal (n div 10) @ [''0123456789'' ! (n mod 10)])"

declare decimal.simps [simp del]

definition format_d :: "int \<Rightarrow> string" where
  "format_d i = (if i < 0 then CHR ''-'' # decimal (nat (- i)) else decimal (nat i))"

subsection \<open>The phases\<close>

definition installConformanceTool ::
  "smi_env \<Rightarrow> SMITest \<Rightarrow> string \<Rightarrow> string \<Rightarrow> event list \<Rightarrow> error option \<times> event list" where
  "installConformanceTool c test smiManifest ns tr =
     (let tr1 = tr @ [(Installing, Call_ReadRemoteFile smiManifest)] in
      case utils_ReadRemoteFile c tr smiManifest of
        Inl err \<Rightarrow> (Some (Cause err), tr1)
      | Inr manifest \<Rightarrow>
          (let options = \<lparr>ApplyOptions.Namespace = ns, Delete = False\<rparr>;
               tr2 = tr1 @ [(Installing, Call_ApplyManifest manifest options)] in
           case kclient_ApplyManifest c tr1 manifest options of
             Some err \<Rightarrow> (Some (Cause err), tr2)
           | None \<Rightarrow> (None, tr2 @ [(Installing, Call_Sleep 20)])))"

definition deleteConformanceTool ::
  "smi_env \<Rightarrow> SMITest \<Rightarrow> string \<Rightarrow> string \<Rightarrow> event list \<Rightarrow> error option \<times> event list" where
  "deleteConformanceTool c test smiManifest ns tr =
     (let tr1 = tr @ [(Deleting, Call_ReadRemoteFile smiManifest)] in
      case utils_ReadRemoteFile c tr smiManifest of
        Inl err \<Rightarrow> (Some (Cause err), tr1)
      | Inr manifest \<Rightarrow>
          (let options = \<lparr>ApplyOptions.Namespace = ns, Delete = True\<rparr>;
               tr2 = tr1 @ [(Deleting, Call_ApplyManifest manifest options)] in
           case kclient_ApplyManifest c tr1 manifest options of
             Some err \<Rightarrow> (Some (Cause err), tr2)
           | None \<Rightarrow> (None, tr2)))"

text \<open>\<open>connectConformanceTool\<close> writes \<open>test.smiAddress\<close>, so it returns the test as well.\<close>

definition connectConformanceTool ::
  "smi_env \<Rightarrow> SMITest \<Rightarrow> string \<Rightarrow> string \<Rightarrow> event list \<Rightarrow>
   error option \<times> SMITest \<times> event list" where
  "connectConformanceTool c test name ns tr =
     (let tr1 = tr @ [(Connecting, Call_GetServiceEndpoint (ctx test) name ns)] in
      case kclient_GetServiceEndpoint c tr (ctx test) name ns of
        Inl err \<Rightarrow> (Some (Cause err), test, tr1)
      | Inr endpoint \<Rightarrow>
          (None, test\<lparr>smiAddress := Address endpoint @ '':'' @ format_d (Port endpoint)\<rparr>, tr1))"

text \<open>The \<open>Detail\<close> that \<open>runConformanceTest\<close> builds from one record \<open>d\<close> of \<open>result.Details\<close>.\<close>

definition new_Detail :: "conformance_Detail \<Rightarrow> Detail" where
  "new_Detail d =
     \<lparr>SmiSpecification = Smispec d,
      SmiVersion = [],
      Detail.Time = conformance_Detail.Time d,
      Detail.Assertions = conformance_Detail.Assertions d,
      Detail.Result = conformance_Detail.Result d,
      Detail.Reason = conformance_Detail.Reason d,
      Detail.Capability = conformance_Detail.Capability d,
      Detail.Status = conformance_Detail.Status d\<rparr>"

text \<open>The loop over \<open>result.Details\<close>, appending to \<open>details\<close>.\<close>

fun append_details :: "conformance_Detail list \<Rightarrow> Detail list \<Rightarrow> Detail list" where
  "append_details [] details = details"
| "append_details (d # rest) details = append_details rest (details @ [new_Detail d])"

text \<open>The request that \<open>runConformanceTest\<close> sends.\<close>

definition new_Request :: "SMITest \<Rightarrow> conformance_Request" where
  "new_Request test =
     \<lparr>conformance_Request.Annotations = annotations test,
      conformance_Request.Labels = labels test,
      Meshname = adaptorName test,
      Meshversion = adaptorVersion test\<rparr>"

text \<open>\<open>runConformanceTest\<close> writes through the pointer \<open>response\<close>: the response is returned.\<close>

definition runConformanceTest ::
  "smi_env \<Rightarrow> SMITest \<Rightarrow> Response \<Rightarrow> event list \<Rightarrow>
   error option \<times> Response \<times> event list" where
  "runConformanceTest c test response tr =
     (let tr1 = tr @ [(Running, Call_CreateClient (smiAddress test))] in
      case conformance_CreateClient c tr (smiAddress test) of
        Some err \<Rightarrow> (Some (Cause err), response, tr1)
      | None \<Rightarrow>
          (let request = new_Request test;
               tr2 = tr1 @ [(Running, Call_RunTest request)] in
           case CClient_RunTest c tr1 request of
             Inl err \<Rightarrow> (Some (Cause err), response, tr2)
           | Inr result \<Rightarrow>
               (let response' = response
                      \<lparr>CasesPassed := Casespassed result,
                       PassingPercentage := Passpercent result,
                       MoreDetails := append_details (Details result) []\<rparr>;
                    tr3 = tr2 @ [(Running, Call_Close)] in
                case cClient_Close c tr2 of
                  Some err \<Rightarrow> (Some (Cause err), response', tr3)
                | None \<Rightarrow> (None, response', tr3))))"

subsection \<open>The run\<close>

text \<open>The test and the report as \<open>RunSMITest\<close> builds them once the cluster client exists.\<close>

definition new_test :: "Adapter \<Rightarrow> SMITestOptions \<Rightarrow> SMITest" where
  "new_test h opts =
     \<lparr>id_smi = OperationID opts,
      adaptorVersion = GetVersion h,
      adaptorName = GetName h,
      ctx = Ctx opts,
      smiAddress = [],
      annotations = SMITestOptions.Annotations opts,
      labels = SMITestOptions.Labels opts\<rparr>"

definition new_response :: "SMITest \<Rightarrow> string \<Rightarrow> Response" where
  "new_response test now =
     \<lparr>ID = id_smi test,
      Date = now,
      MeshName = adaptorName test,
      MeshVersion = adaptorVersion test,
      CasesPassed = ''0'',
      PassingPercentage = ''0'',
      Response.Status = ''deploying'',
      MoreDetails = []\<rparr>"

text \<open>
  \<open>RunSMITest\<close> returns the report and the error; the model returns the calls made as
  well.
\<close>

definition RunSMITest ::
  "smi_env \<Rightarrow> Adapter \<Rightarrow> SMITestOptions \<Rightarrow> Response \<times> error option \<times> event list" where
  "RunSMITest c h opts =
     (let name = ''smi-conformance'';
          tr0 = [(Deploying, Call_New)] in
      case mesherykube_New c [] of
        Some err \<Rightarrow>
          (Response_zero,
           Some (ErrSmiInit (''error creating meshery kubernetes client: '' @ err)), tr0)
      | None \<Rightarrow>
          (let test = new_test h opts;
               response = new_response test (time_Now c tr0) in
           case installConformanceTool c test (Manifest opts) (SMITestOptions.Namespace opts) tr0 of
             (Some err, tr1) \<Rightarrow>
               (response\<lparr>Response.Status := ''installing''\<rparr>, Some (ErrInstallSmi err), tr1)
           | (None, tr1) \<Rightarrow>
               (case connectConformanceTool c test name (SMITestOptions.Namespace opts) tr1 of
                  (Some err, test, tr2) \<Rightarrow>
                    (response\<lparr>Response.Status := ''connecting''\<rparr>, Some (ErrConnectSmi err), tr2)
                | (None, test, tr2) \<Rightarrow>
                    (case runConformanceTest c test response tr2 of
                       (Some err, response, tr3) \<Rightarrow>
                         (response\<lparr>Response.Status := ''running''\<rparr>, Some (ErrRunSmi err), tr3)
                     | (None, response, tr3) \<Rightarrow>
                         (case deleteConformanceTool c test (Manifest opts)
                                 (SMITestOptions.Namespace opts) tr3 of
                            (Some err, tr4) \<Rightarrow>
                              (response\<lparr>Response.Status := ''deleting''\<rparr>,
                               Some (ErrDeleteSmi err), tr4)
                          | (None, tr4) \<Rightarrow>
                              (response\<lparr>Response.Status := ''completed''\<rparr>, None, tr4))))))"

text \<open>The status string that names a phase (the table of section 4.4 of the specification).\<close>

fun phase_name :: "phase \<Rightarrow> string" where
  "phase_name Deploying = ''deploying''"
| "phase_name Installing = ''installing''"
| "phase_name Connecting = ''connecting''"
| "phase_name Running = ''running''"
| "phase_name Deleting = ''deleting''"

fun phase_rank :: "phase \<Rightarrow> nat" where
  "phase_rank Deploying = 0"
| "phase_rank Installing = 1"
| "phase_rank Connecting = 2"
| "phase_rank Running = 3"
| "phase_rank Deleting = 4"

text \<open>The phases of the calls never go back, and none lies after a given phase.\<close>

definition phases_in_order :: "event list \<Rightarrow> bool" where
  "phases_in_order tr = sorted (map (\<lambda>ev. phase_rank (fst ev)) tr)"

definition no_phase_after :: "phase \<Rightarrow> event list \<Rightarrow> bool" where
  "no_phase_after p tr = list_all (\<lambda>ev. phase_rank (fst ev) \<le> phase_rank p) tr"

text \<open>
  The report as \<open>RunSMITest\<close> constructs it, and the installing phase as \<open>RunSMITest\<close>
  starts it, after the one call that creates the cluster client.
\<close>

definition initial_report :: "smi_env \<Rightarrow> Adapter \<Rightarrow> SMITestOptions \<Rightarrow> Response" where
  "initial_report c h opts = new_response (new_test h opts) (time_Now c [(Deploying, Call_New)])"

abbreviation installing ::
  "smi_env \<Rightarrow> Adapter \<Rightarrow> SMITestOptions \<Rightarrow> error option \<times> event list" where
  "installing c h opts \<equiv>
     installConformanceTool c (new_test h opts) (Manifest opts) (SMITestOptions.Namespace opts)
       [(Deploying, Call_New)]"

abbreviation connecting ::
  "smi_env \<Rightarrow> Adapter \<Rightarrow> SMITestOptions \<Rightarrow> event list \<Rightarrow> error option \<times> SMITest \<times> event list" where
  "connecting c h opts tr \<equiv>
     connectConformanceTool c (new_test h opts) ''smi-conformance'' (SMITestOptions.Namespace opts) tr"

abbreviation deleting ::
  "smi_env \<Rightarrow> SMITest \<Rightarrow> SMITestOptions \<Rightarrow> event list \<Rightarrow> error option \<times> event list" where
  "deleting c test opts tr \<equiv>
     deleteConformanceTool c test (Manifest opts) (SMITestOptions.Namespace opts) tr"

section \<open>Concrete inputs\<close>

subsection \<open>Kubeconfig documents\<close>

definition inline_user :: AuthInfo where
  "inline_user = \<lparr>ClientCertificate = [], ClientCertificateData = [0x2D, 0x2D]\<rparr>"

definition path_user :: AuthInfo where
  "path_user = \<lparr>ClientCertificate = ''/home/nobody/client.crt'', ClientCertificateData = []\<rparr>"

definition other_path_user :: AuthInfo where
  "other_path_user = \<lparr>ClientCertificate = ''/etc/absent.crt'', ClientCertificateData = []\<rparr>"

definition kubeconfig_bytes :: "byte list" where
  "kubeconfig_bytes = [0x6B, 0x69, 0x6E, 0x64]"

definition config_no_context :: Config where
  "config_no_context = \<lparr>AuthInfos = [(''admin'', inline_user)], CurrentContext = []\<rparr>"

definition config_mixed :: Config where
  "config_mixed =
     \<lparr>AuthInfos = [(''dev'', path_user), (''admin'', inline_user), (''ops'', other_path_user)],
      CurrentContext = ''prod''\<rparr>"

definition config_paths_only :: Config where
  "config_paths_only =
     \<lparr>AuthInfos = [(''dev'', path_user), (''ops'', other_path_user)], CurrentContext = ''prod''\<rparr>"

text \<open>
  A file system on which no certificate path is accessible, a flattening that changes
  nothing, and a minification that insists on a current context, as the one of the
  Kubernetes client library does.
\<close>

definition stat_nothing :: "string \<Rightarrow> string option" where
  "stat_nothing path = Some ''no such file or directory''"

definition minify_strict :: "Config \<Rightarrow> string + Config" where
  "minify_strict cfg =
     (if CurrentContext cfg = [] then Inl ''current-context must exist in order to minify''
      else Inr cfg)"

definition kube_loading :: "Config \<Rightarrow> kube_env" where
  "kube_loading cfg =
     \<lparr>clientcmd_Load = (\<lambda>bytes. Inr cfg),
      os_Stat = stat_nothing,
      clientcmdapi_FlattenConfig = Inr,
      clientcmdapi_MinifyConfig = minify_strict\<rparr>"

subsection \<open>Conformance runs\<close>

definition osm_adapter :: Adapter where
  "osm_adapter = \<lparr>GetName = ''osm'', GetVersion = ''v0.5.0''\<rparr>"

definition opts_meshery :: SMITestOptions where
  "opts_meshery =
     \<lparr>Ctx = ''background'', OperationID = ''op-17'', SMITestOptions.Namespace = ''meshery'',
      Manifest = ''https://example.org/smi-conformance.yaml'',
      SMITestOptions.Labels = Map.empty, SMITestOptions.Annotations = Map.empty\<rparr>"

definition opts_no_namespace :: SMITestOptions where
  "opts_no_namespace = opts_meshery\<lparr>SMITestOptions.Namespace := []\<rparr>"

definition raw_access :: conformance_Detail where
  "raw_access =
     \<lparr>Smispec = ''traffic-access'', Specversion = ''v1alpha3'',
      conformance_Detail.Time = ''1.2s'', conformance_Detail.Assertions = ''3'',
      conformance_Detail.Result = ''passed'', conformance_Detail.Reason = [],
      conformance_Detail.Capability = ''FULL'', conformance_Detail.Status = ''passing''\<rparr>"

definition raw_split :: conformance_Detail where
  "raw_split =
     \<lparr>Smispec = ''traffic-split'', Specversion = ''v1alpha4'',
      conformance_Detail.Time = ''0.7s'', conformance_Detail.Assertions = ''2'',
      conformance_Detail.Result = ''failed'', conformance_Detail.Reason = ''weights ignored'',
      conformance_Detail.Capability = ''HALF'', conformance_Detail.Status = ''failing''\<rparr>"

definition raw_spec :: conformance_Detail where
  "raw_spec =
     \<lparr>Smispec = ''traffic-spec'', Specversion = ''v1alpha4'',
      conformance_Detail.Time = ''2.0s'', conformance_Detail.Assertions = ''3'',
      conformance_Detail.Result = ''passed'', conformance_Detail.Reason = [],
      conformance_Detail.Capability = ''FULL'', conformance_Detail.Status = ''passing''\<rparr>"

definition result_three :: conformance_Response where
  "result_three =
     \<lparr>Casespassed = ''8'', Passpercent = ''100'', Details = [raw_access, raw_split, raw_spec]\<rparr>"

definition result_one :: conformance_Response where
  "result_one = \<lparr>Casespassed = ''3'', Passpercent = ''100'', Details = [raw_access]\<rparr>"

text \<open>Collaborators with which every phase succeeds.\<close>

definition env_happy :: smi_env where
  "env_happy =
     \<lparr>mesherykube_New = (\<lambda>tr. None),
      time_Now = (\<lambda>tr. ''2020-11-20T10:00:00Z''),
      utils_ReadRemoteFile = (\<lambda>tr location. Inr ''kind: Deployment''),
      kclient_ApplyManifest = (\<lambda>tr contents options. None),
      kclient_GetServiceEndpoint =
        (\<lambda>tr cx name ns. Inr \<lparr>Address = ''10.0.0.7'', Port = 10011\<rparr>),
      conformance_CreateClient = (\<lambda>tr address. None),
      CClient_RunTest = (\<lambda>tr request. Inr result_three),
      cClient_Close = (\<lambda>tr. None)\<rparr>"

text \<open>
  One failure each: the cluster client, the first fetch of the manifest, the endpoint,
  the test call, the close of the session, and the second fetch of the manifest (the
  first one, made after a single call, succeeds).
\<close>

definition env_new_fails :: smi_env where
  "env_new_fails = env_happy\<lparr>mesherykube_New := (\<lambda>tr. Some ''no rest config'')\<rparr>"

definition env_fetch_fails :: smi_env where
  "env_fetch_fails =
     env_happy\<lparr>utils_ReadRemoteFile := (\<lambda>tr location. Inl ''dial tcp: i/o timeout'')\<rparr>"

definition env_endpoint_fails :: smi_env where
  "env_endpoint_fails =
     env_happy\<lparr>kclient_GetServiceEndpoint := (\<lambda>tr cx name ns. Inl ''service not found'')\<rparr>"

definition env_test_fails :: smi_env where
  "env_test_fails = env_happy\<lparr>CClient_RunTest := (\<lambda>tr request. Inl ''deadline exceeded'')\<rparr>"

definition env_close_fails :: smi_env where
  "env_close_fails =
     env_happy\<lparr>CClient_RunTest := (\<lambda>tr request. Inr result_one),
       cClient_Close := (\<lambda>tr. Some ''connection is closing'')\<rparr>"

definition env_refetch_fails :: smi_env where
  "env_refetch_fails =
     env_happy\<lparr>utils_ReadRemoteFile :=
       (\<lambda>tr location. if length tr \<le> 1 then Inr ''kind: Deployment'' else Inl ''dial tcp: i/o timeout'')\<rparr>"

text \<open>The calls of a run with \<open>opts_meshery\<close> in which nothing fails, phase by phase.\<close>

definition calls_fetched :: "event list" where
  "calls_fetched =
     [(Deploying, Call_New),
      (Installing, Call_ReadRemoteFile ''https://example.org/smi-conformance.yaml'')]"

definition calls_installed :: "event list" where
  "calls_installed =
     calls_fetched @
     [(Installing,
       Call_ApplyManifest ''kind: Deployment''
         \<lparr>ApplyOptions.Namespace = ''meshery'', Delete = False\<rparr>),
      (Installing, Call_Sleep 20)]"

definition calls_connected :: "event list" where
  "calls_connected =
     calls_installed @
     [(Connecting, Call_GetServiceEndpoint ''background'' ''smi-conformance'' ''meshery'')]"

definition test_connected :: SMITest where
  "test_connected = (new_test osm_adapter opts_meshery)\<lparr>smiAddress := ''10.0.0.7:10011''\<rparr>"

definition calls_tested :: "event list" where
  "calls_tested =
     calls_connected @
     [(Running, Call_CreateClient ''10.0.0.7:10011''),
      (Running, Call_RunTest (new_Request test_connected))]"

definition calls_closed :: "event list" where
  "calls_closed = calls_tested @ [(Running, Call_Close)]"

definition calls_refetched :: "event list" where
  "calls_refetched =
     calls_closed @
     [(Deleting, Call_ReadRemoteFile ''https://example.org/smi-conformance.yaml'')]"

definition calls_deleted :: "event list" where
  "calls_deleted =
     calls_refetched @
     [(Deleting,
       Call_ApplyManifest ''kind: Deployment''
         \<lparr>ApplyOptions.Namespace = ''meshery'', Delete = True\<rparr>)]"

text \<open>The report of \<open>env_happy\<close> once the tests have run.\<close>

definition report_three :: Response where
  "report_three =
     (initial_report env_happy osm_adapter opts_meshery)
       \<lparr>CasesPassed := ''8'', PassingPercentage := ''100'',
        MoreDetails := [new_Detail raw_access, new_Detail raw_split, new_Detail raw_spec]\<rparr>"

section \<open>Properties of the auth-info filter\<close>

lemma range_authInfos_filter:
  "range_authInfos stat entries m = filter (\<lambda>e. fst e \<notin> deleted_keys stat entries) m"
proof (induction entries arbitrary: m)
  case Nil
  show ?case by (simp add: deleted_keys_def)
next
  case (Cons e entries)
  obtain key authInfo where e: "e = (key, authInfo)" by (cases e)
  show ?case
  proof (cases "unusable stat authInfo")
    case True
    then have dk: "deleted_keys stat (e # entries) = insert key (deleted_keys stat entries)"
      by (force simp: deleted_keys_def e)
    from True obtain err where st: "stat (ClientCertificate authInfo) = Some err"
      and len: "length (ClientCertificateData authInfo) = 0"
      by (auto simp: unusable_def)
    have "range_authInfos stat (e # entries) m =
            range_authInfos stat entries (AList.delete key m)"
      by (simp add: e st len)
    also have "\<dots> = filter (\<lambda>x. fst x \<notin> deleted_keys stat entries) (AList.delete key m)"
      by (rule Cons.IH)
    also have "\<dots> = filter (\<lambda>x. fst x \<notin> deleted_keys stat (e # entries)) m"
      unfolding dk AList.delete_eq filter_filter
      by (rule filter_cong) auto
    finally show ?thesis .
  next
    case False
    then have dk: "deleted_keys stat (e # entries) = deleted_keys stat entries"
      by (auto simp: deleted_keys_def e)
    from False have "range_authInfos stat (e # entries) m = range_authInfos stat entries m"
      by (auto simp: e unusable_def split: option.splits)
    then show ?thesis
      by (simp add: Cons.IH dk)
  qed
qed

lemma deleted_keys_mono:
  "set m' \<subseteq> set m \<Longrightarrow> deleted_keys stat m' \<subseteq> deleted_keys stat m"
  by (auto simp: deleted_keys_def)

lemma range_authInfos_fixed:
  "range_authInfos stat (range_authInfos stat m m) (range_authInfos stat m m) =
   range_authInfos stat m m"
proof -
  let ?m' = "range_authInfos stat m m"
  have m': "?m' = filter (\<lambda>e. fst e \<notin> deleted_keys stat m) m"
    by (rule range_authInfos_filter)
  then have "set ?m' \<subseteq> set m" by auto
  then have sub: "deleted_keys stat ?m' \<subseteq> deleted_keys stat m"
    by (rule deleted_keys_mono)
  have "\<forall>e \<in> set ?m'. fst e \<notin> deleted_keys stat ?m'"
    using sub m' by auto
  then have "filter (\<lambda>e. fst e \<notin> deleted_keys stat ?m') ?m' = ?m'"
    by (simp add: filter_id_conv)
  then show ?thesis
    by (simp add: range_authInfos_filter [of stat ?m' ?m'])
qed

lemma range_authInfos_all_unusable:
  assumes "\<forall>e \<in> set m. unusable stat (snd e)"
  shows "range_authInfos stat m m = []"
proof -
  have "\<forall>e \<in> set m. fst e \<in> deleted_keys stat m"
    using assms by (auto simp: deleted_keys_def)
  then show ?thesis
    by (simp add: range_authInfos_filter)
qed

lemma range_authInfos_keeps:
  assumes dist: "distinct (map fst m)"
    and mem: "(key, authInfo) \<in> set m"
    and inline: "ClientCertificateData authInfo \<noteq> []"
  shows "(key, authInfo) \<in> set (range_authInfos stat m m)"
proof -
  have "key \<notin> deleted_keys stat m"
  proof
    assume "key \<in> deleted_keys stat m"
    then obtain a where a: "(key, a) \<in> set m" and un: "unusable stat a"
      by (auto simp: deleted_keys_def)
    from dist a mem have "a = authInfo"
      by (meson eq_key_imp_eq_value)
    with un inline show False
      by (simp add: unusable_def)
  qed
  with mem show ?thesis
    by (simp add: range_authInfos_filter)
qed

section \<open>Claims about kubeconfig validation\<close>

text \<open>
  C6. When the kubeconfig parses and every auth-info entry has no inline certificate
  data and a certificate path that \<open>os.Stat\<close> rejects, the filter deletes every entry
  and \<open>validateKubeconfig\<close> fails with \<open>ErrAuthInfosInvalidMsg\<close>, wrapped in the label of
  the validation.
\<close>

theorem validateKubeconfig_no_usable_credentials:
  assumes "clientcmd_Load k kubeconfig = Inr cfg"
    and "\<forall>e \<in> set (AuthInfos cfg).
           length (ClientCertificateData (snd e)) = 0 \<and>
           os_Stat k (ClientCertificate (snd e)) \<noteq> None"
  shows "snd (filterK8sConfigAuthInfos (os_Stat k) (AuthInfos cfg)) = [] \<and>
         validateKubeconfig k kubeconfig = Inl (ErrValidateKubeconfig ErrAuthInfosInvalidMsg)"
proof -
  have "\<forall>e \<in> set (AuthInfos cfg). unusable (os_Stat k) (snd e)"
    using assms(2) by (simp add: unusable_def)
  then have "range_authInfos (os_Stat k) (AuthInfos cfg) (AuthInfos cfg) = []"
    by (rule range_authInfos_all_unusable)
  then have "filterK8sConfigAuthInfos (os_Stat k) (AuthInfos cfg) =
               (Some ErrAuthInfosInvalidMsg, [])"
    by (simp add: filterK8sConfigAuthInfos_def)
  then show ?thesis
    using assms(1) by (simp add: validateKubeconfig_def)
qed

theorem validateKubeconfig_no_usable_credentials_witness:
  "clientcmd_Load (kube_loading config_paths_only) kubeconfig_bytes = Inr config_paths_only \<and>
   AuthInfos config_paths_only = [(''dev'', path_user), (''ops'', other_path_user)] \<and>
   length (ClientCertificateData path_user) = 0 \<and>
   os_Stat (kube_loading config_paths_only) (ClientCertificate path_user) \<noteq> None \<and>
   length (ClientCertificateData other_path_user) = 0 \<and>
   os_Stat (kube_loading config_paths_only) (ClientCertificate other_path_user) \<noteq> None \<and>
   snd (filterK8sConfigAuthInfos stat_nothing (AuthInfos config_paths_only)) = [] \<and>
   validateKubeconfig (kube_loading config_paths_only) kubeconfig_bytes =
     Inl (ErrValidateKubeconfig ErrAuthInfosInvalidMsg)"
proof -
  have load: "clientcmd_Load (kube_loading config_paths_only) kubeconfig_bytes =
                Inr config_paths_only"
    by (simp add: kube_loading_def)
  have entries: "AuthInfos config_paths_only = [(''dev'', path_user), (''ops'', other_path_user)]"
    by (simp add: config_paths_only_def)
  have dev: "length (ClientCertificateData path_user) = 0 \<and>
             os_Stat (kube_loading config_paths_only) (ClientCertificate path_user) \<noteq> None"
    by (simp add: kube_loading_def path_user_def stat_nothing_def)
  have ops: "length (ClientCertificateData other_path_user) = 0 \<and>
             os_Stat (kube_loading config_paths_only) (ClientCertificate other_path_user) \<noteq> None"
    by (simp add: kube_loading_def other_path_user_def stat_nothing_def)
  have bad: "\<forall>e \<in> set (AuthInfos config_paths_only).
               length (ClientCertificateData (snd e)) = 0 \<and>
               os_Stat (kube_loading config_paths_only) (ClientCertificate (snd e)) \<noteq> None"
    using dev ops by (simp add: entries)
  have stat: "os_Stat (kube_loading config_paths_only) = stat_nothing"
    by (simp add: kube_loading_def)
  have "snd (filterK8sConfigAuthInfos stat_nothing (AuthInfos config_paths_only)) = [] \<and>
        validateKubeconfig (kube_loading config_paths_only) kubeconfig_bytes =
          Inl (ErrValidateKubeconfig ErrAuthInfosInvalidMsg)"
    using validateKubeconfig_no_usable_credentials [OF load bad] by (simp only: stat)
  with load entries dev ops show ?thesis by simp
qed

text \<open>
  C7, as the claim states it, at a document whose only auth-info entry carries inline
  certificate data and which names no current context: the filter keeps the entry, and
  the validation fails all the same, in the minification.
\<close>

theorem validateKubeconfig_inline_counterexample:
  "clientcmd_Load (kube_loading config_no_context) kubeconfig_bytes = Inr config_no_context \<and>
   (''admin'', inline_user) \<in> set (AuthInfos config_no_context) \<and>
   ClientCertificateData inline_user \<noteq> [] \<and>
   validateKubeconfig (kube_loading config_no_context) kubeconfig_bytes =
     Inl (ErrValidateKubeconfig (Cause ''current-context must exist in order to minify''))"
  by (simp add: kube_loading_def config_no_context_def inline_user_def validateKubeconfig_def
      filterK8sConfigAuthInfos_def minify_strict_def)

text \<open>
  C7, amended. When the kubeconfig parses and an auth-info entry carries inline
  certificate data, the filter succeeds and keeps that entry, whatever \<open>os.Stat\<close> says
  about the paths of the other entries; the validation does not fail for want of usable
  credentials, and it succeeds with the minified document whenever flattening and
  minification succeed. The keys of the entries are distinct, as those of a Go map are.
\<close>

theorem validateKubeconfig_keeps_inline_entry:
  assumes "clientcmd_Load k kubeconfig = Inr cfg"
    and "distinct (map fst (AuthInfos cfg))"
    and "(key, authInfo) \<in> set (AuthInfos cfg)"
    and "ClientCertificateData authInfo \<noteq> []"
  shows "fst (filterK8sConfigAuthInfos (os_Stat k) (AuthInfos cfg)) = None \<and>
         (key, authInfo) \<in> set (snd (filterK8sConfigAuthInfos (os_Stat k) (AuthInfos cfg))) \<and>
         map_of (snd (filterK8sConfigAuthInfos (os_Stat k) (AuthInfos cfg))) key = Some authInfo \<and>
         validateKubeconfig k kubeconfig \<noteq> Inl (ErrValidateKubeconfig ErrAuthInfosInvalidMsg) \<and>
         (\<forall>flattened minified.
            clientcmdapi_FlattenConfig k
              (cfg\<lparr>AuthInfos := snd (filterK8sConfigAuthInfos (os_Stat k) (AuthInfos cfg))\<rparr>) =
              Inr flattened \<and>
            clientcmdapi_MinifyConfig k flattened = Inr minified \<longrightarrow>
            validateKubeconfig k kubeconfig = Inr minified)"
proof -
  let ?kept = "range_authInfos (os_Stat k) (AuthInfos cfg) (AuthInfos cfg)"
  have kept: "(key, authInfo) \<in> set ?kept"
    using assms(2-4) by (rule range_authInfos_keeps)
  then have ne: "?kept \<noteq> []" by auto
  then have f: "filterK8sConfigAuthInfos (os_Stat k) (AuthInfos cfg) = (None, ?kept)"
    by (simp add: filterK8sConfigAuthInfos_def)
  have "distinct (map fst ?kept)"
    using assms(2) by (simp add: range_authInfos_filter distinct_map_filter)
  with kept have look: "map_of ?kept key = Some authInfo"
    by simp
  have v1: "validateKubeconfig k kubeconfig \<noteq> Inl (ErrValidateKubeconfig ErrAuthInfosInvalidMsg)"
    using assms(1) f by (simp add: validateKubeconfig_def split: sum.splits)
  have v2: "validateKubeconfig k kubeconfig = Inr minified"
    if "clientcmdapi_FlattenConfig k (cfg\<lparr>AuthInfos := ?kept\<rparr>) = Inr flattened"
      and "clientcmdapi_MinifyConfig k flattened = Inr minified" for flattened minified
    using assms(1) f that by (simp add: validateKubeconfig_def)
  show ?thesis
    using kept look v1 v2 by (simp add: f)
qed

theorem validateKubeconfig_keeps_inline_entry_witness:
  "clientcmd_Load (kube_loading config_mixed) kubeconfig_bytes = Inr config_mixed \<and>
   distinct (map fst (AuthInfos config_mixed)) \<and>
   (''admin'', inline_user) \<in> set (AuthInfos config_mixed) \<and>
   ClientCertificateData inline_user \<noteq> [] \<and>
   filterK8sConfigAuthInfos stat_nothing (AuthInfos config_mixed) =
     (None, [(''admin'', inline_user)]) \<and>
   validateKubeconfig (kube_loading config_mixed) kubeconfig_bytes =
     Inr (config_mixed\<lparr>AuthInfos := [(''admin'', inline_user)]\<rparr>)"
proof -
  have load: "clientcmd_Load (kube_loading config_mixed) kubeconfig_bytes = Inr config_mixed"
    by (simp add: kube_loading_def)
  have dist: "distinct (map fst (AuthInfos config_mixed))"
    by (simp add: config_mixed_def)
  have mem: "(''admin'', inline_user) \<in> set (AuthInfos config_mixed)"
    by (simp add: config_mixed_def)
  have inline: "ClientCertificateData inline_user \<noteq> []"
    by (simp add: inline_user_def)
  have filt: "filterK8sConfigAuthInfos stat_nothing (AuthInfos config_mixed) =
                (None, [(''admin'', inline_user)])"
    by (simp add: filterK8sConfigAuthInfos_def config_mixed_def inline_user_def path_user_def
        other_path_user_def stat_nothing_def)
  have flat: "clientcmdapi_FlattenConfig (kube_loading config_mixed)
                (config_mixed\<lparr>AuthInfos := [(''admin'', inline_user)]\<rparr>) =
              Inr (config_mixed\<lparr>AuthInfos := [(''admin'', inline_user)]\<rparr>)"
    by (simp add: kube_loading_def)
  have mini: "clientcmdapi_MinifyConfig (kube_loading config_mixed)
                (config_mixed\<lparr>AuthInfos := [(''admin'', inline_user)]\<rparr>) =
              Inr (config_mixed\<lparr>AuthInfos := [(''admin'', inline_user)]\<rparr>)"
    by (simp add: kube_loading_def minify_strict_def config_mixed_def)
  have stat: "os_Stat (kube_loading config_mixed) = stat_nothing"
    by (simp add: kube_loading_def)
  have "validateKubeconfig (kube_loading config_mixed) kubeconfig_bytes =
          Inr (config_mixed\<lparr>AuthInfos := [(''admin'', inline_user)]\<rparr>)"
    using validateKubeconfig_keeps_inline_entry [OF load dist mem inline] flat mini
    unfolding stat filt by simp
  with load dist mem inline filt show ?thesis by blast
qed

text \<open>
  C8. The filter is idempotent: run on the map that a first run leaves, with the same
  \<open>os.Stat\<close>, it leaves that map as it is and returns the same error or nil.
\<close>

theorem filterK8sConfigAuthInfos_idempotent:
  "filterK8sConfigAuthInfos stat (snd (filterK8sConfigAuthInfos stat authInfos)) =
   filterK8sConfigAuthInfos stat authInfos"
  by (simp add: filterK8sConfigAuthInfos_def Let_def range_authInfos_fixed)

theorem filterK8sConfigAuthInfos_idempotent_witness:
  "filterK8sConfigAuthInfos stat_nothing (AuthInfos config_mixed) =
     (None, [(''admin'', inline_user)]) \<and>
   filterK8sConfigAuthInfos stat_nothing [(''admin'', inline_user)] =
     (None, [(''admin'', inline_user)])"
proof -
  have filt: "filterK8sConfigAuthInfos stat_nothing (AuthInfos config_mixed) =
                (None, [(''admin'', inline_user)])"
    by (simp add: filterK8sConfigAuthInfos_def config_mixed_def inline_user_def path_user_def
        other_path_user_def stat_nothing_def)
  show ?thesis
    using filterK8sConfigAuthInfos_idempotent [of stat_nothing "AuthInfos config_mixed"]
    unfolding filt by simp
qed

section \<open>Properties of the conformance run\<close>

lemma append_details_map: "append_details ds details = details @ map new_Detail ds"
  by (induction ds arbitrary: details) simp_all

lemma RunSMITest_new_fails:
  "mesherykube_New c [] = Some msg \<Longrightarrow>
   RunSMITest c h opts =
     (Response_zero, Some (ErrSmiInit (''error creating meshery kubernetes client: '' @ msg)),
      [(Deploying, Call_New)])"
  by (simp add: RunSMITest_def)

lemma RunSMITest_install_fails:
  assumes "mesherykube_New c [] = None"
    and "installing c h opts = (Some err, tr1)"
  shows "RunSMITest c h opts =
           ((initial_report c h opts)\<lparr>Response.Status := ''installing''\<rparr>,
            Some (ErrInstallSmi err), tr1)"
  using assms by (simp add: RunSMITest_def initial_report_def)

lemma RunSMITest_connect_fails:
  assumes "mesherykube_New c [] = None"
    and "installing c h opts = (None, tr1)"
    and "connecting c h opts tr1 = (Some err, test2, tr2)"
  shows "RunSMITest c h opts =
           ((initial_report c h opts)\<lparr>Response.Status := ''connecting''\<rparr>,
            Some (ErrConnectSmi err), tr2)"
  using assms by (simp add: RunSMITest_def initial_report_def)

lemma RunSMITest_run_fails:
  assumes "mesherykube_New c [] = None"
    and "installing c h opts = (None, tr1)"
    and "connecting c h opts tr1 = (None, test2, tr2)"
    and "runConformanceTest c test2 (initial_report c h opts) tr2 = (Some err, response3, tr3)"
  shows "RunSMITest c h opts =
           (response3\<lparr>Response.Status := ''running''\<rparr>, Some (ErrRunSmi err), tr3)"
  using assms by (simp add: RunSMITest_def initial_report_def)

lemma RunSMITest_delete_fails:
  assumes "mesherykube_New c [] = None"
    and "installing c h opts = (None, tr1)"
    and "connecting c h opts tr1 = (None, test2, tr2)"
    and "runConformanceTest c test2 (initial_report c h opts) tr2 = (None, response3, tr3)"
    and "deleting c test2 opts tr3 = (Some err, tr4)"
  shows "RunSMITest c h opts =
           (response3\<lparr>Response.Status := ''deleting''\<rparr>, Some (ErrDeleteSmi err), tr4)"
  using assms by (simp add: RunSMITest_def initial_report_def)

lemma RunSMITest_completed:
  assumes "mesherykube_New c [] = None"
    and "installing c h opts = (None, tr1)"
    and "connecting c h opts tr1 = (None, test2, tr2)"
    and "runConformanceTest c test2 (initial_report c h opts) tr2 = (None, response3, tr3)"
    and "deleting c test2 opts tr3 = (None, tr4)"
  shows "RunSMITest c h opts = (response3\<lparr>Response.Status := ''completed''\<rparr>, None, tr4)"
  using assms by (simp add: RunSMITest_def initial_report_def)

text \<open>What each phase adds to the calls.\<close>

lemma install_calls:
  assumes "installConformanceTool c test m ns tr = (r, tr')"
  shows "\<exists>evs. tr' = tr @ evs \<and> evs \<noteq> [] \<and> fst ` set evs = {Installing}"
  using assms
  by (auto simp: installConformanceTool_def Let_def split: sum.splits option.splits)

lemma connect_calls:
  assumes "connectConformanceTool c test name ns tr = (r, test', tr')"
  shows "\<exists>evs. tr' = tr @ evs \<and> evs \<noteq> [] \<and> fst ` set evs = {Connecting}"
  using assms
  by (auto simp: connectConformanceTool_def Let_def split: sum.splits)

lemma run_calls:
  assumes "runConformanceTest c test response tr = (r, response', tr')"
  shows "\<exists>evs. tr' = tr @ evs \<and> evs \<noteq> [] \<and> fst ` set evs = {Running}"
  using assms
  by (auto simp: runConformanceTest_def Let_def split: sum.splits option.splits)

lemma delete_calls:
  assumes "deleteConformanceTool c test m ns tr = (r, tr')"
  shows "\<exists>evs. tr' = tr @ evs \<and> evs \<noteq> [] \<and> fst ` set evs = {Deleting}"
  using assms
  by (auto simp: deleteConformanceTool_def Let_def split: sum.splits option.splits)

lemma phases_in_order_append:
  assumes "phases_in_order tr" and "no_phase_after p tr" and "fst ` set evs = {q}"
    and "phase_rank p \<le> phase_rank q"
  shows "phases_in_order (tr @ evs) \<and> no_phase_after q (tr @ evs)"
proof -
  have evs: "\<forall>ev \<in> set evs. fst ev = q" using assms(3) by auto
  have "sorted (map (\<lambda>ev. phase_rank (fst ev)) evs)"
    using evs by (induction evs) auto
  moreover have "\<forall>a \<in> set tr. \<forall>b \<in> set evs. phase_rank (fst a) \<le> phase_rank (fst b)"
    using assms(2,4) evs by (auto simp: no_phase_after_def list_all_iff intro: order_trans)
  ultimately have "phases_in_order (tr @ evs)"
    using assms(1) by (auto simp: phases_in_order_def sorted_append)
  moreover have "no_phase_after q (tr @ evs)"
    using assms(2,4) evs by (auto simp: no_phase_after_def list_all_iff intro: order_trans)
  ultimately show ?thesis ..
qed

lemma last_phase_append:
  "evs \<noteq> [] \<Longrightarrow> fst ` set evs = {q} \<Longrightarrow> fst (last (tr @ evs)) = q"
  by (metis image_eqI last_appendR last_in_set singletonD)

lemma deploying_trace:
  "phases_in_order [(Deploying, Call_New)] \<and> no_phase_after Deploying [(Deploying, Call_New)]"
  by (simp add: phases_in_order_def no_phase_after_def)

lemma installing_trace:
  assumes "installing c h opts = (r, tr1)"
  shows "phases_in_order tr1 \<and> no_phase_after Installing tr1 \<and> fst (last tr1) = Installing"
proof -
  from install_calls [OF assms] obtain evs
    where evs: "tr1 = [(Deploying, Call_New)] @ evs" "evs \<noteq> []" "fst ` set evs = {Installing}"
    by blast
  have "phase_rank Deploying \<le> phase_rank Installing" by simp
  with deploying_trace evs(3)
  have "phases_in_order ([(Deploying, Call_New)] @ evs) \<and>
        no_phase_after Installing ([(Deploying, Call_New)] @ evs)"
    by (intro phases_in_order_append [where p = Deploying]) auto
  moreover have "fst (last ([(Deploying, Call_New)] @ evs)) = Installing"
    using evs(2,3) by (rule last_phase_append)
  ultimately show ?thesis
    unfolding evs(1) by blast
qed

lemma connecting_trace:
  assumes "installing c h opts = (r1, tr1)"
    and "connecting c h opts tr1 = (r2, test2, tr2)"
  shows "phases_in_order tr2 \<and> no_phase_after Connecting tr2 \<and> fst (last tr2) = Connecting"
proof -
  from connect_calls [OF assms(2)] obtain evs
    where evs: "tr2 = tr1 @ evs" "evs \<noteq> []" "fst ` set evs = {Connecting}"
    by blast
  have "phase_rank Installing \<le> phase_rank Connecting" by simp
  with installing_trace [OF assms(1)] evs(3)
  have "phases_in_order (tr1 @ evs) \<and> no_phase_after Connecting (tr1 @ evs)"
    by (intro phases_in_order_append [where p = Installing]) auto
  moreover have "fst (last (tr1 @ evs)) = Connecting"
    using evs(2,3) by (rule last_phase_append)
  ultimately show ?thesis
    unfolding evs(1) by blast
qed

lemma running_trace:
  assumes "installing c h opts = (r1, tr1)"
    and "connecting c h opts tr1 = (r2, test2, tr2)"
    and "runConformanceTest c test2 response tr2 = (r3, response3, tr3)"
  shows "phases_in_order tr3 \<and> no_phase_after Running tr3 \<and> fst (last tr3) = Running"
proof -
  from run_calls [OF assms(3)] obtain evs
    where evs: "tr3 = tr2 @ evs" "evs \<noteq> []" "fst ` set evs = {Running}"
    by blast
  have "phase_rank Connecting \<le> phase_rank Running" by simp
  with connecting_trace [OF assms(1,2)] evs(3)
  have "phases_in_order (tr2 @ evs) \<and> no_phase_after Running (tr2 @ evs)"
    by (intro phases_in_order_append [where p = Connecting]) auto
  moreover have "fst (last (tr2 @ evs)) = Running"
    using evs(2,3) by (rule last_phase_append)
  ultimately show ?thesis
    unfolding evs(1) by blast
qed

lemma deleting_trace:
  assumes "installing c h opts = (r1, tr1)"
    and "connecting c h opts tr1 = (r2, test2, tr2)"
    and "runConformanceTest c test2 response tr2 = (r3, response3, tr3)"
    and "deleting c test2 opts tr3 = (r4, tr4)"
  shows "phases_in_order tr4 \<and> no_phase_after Deleting tr4 \<and> fst (last tr4) = Deleting"
proof -
  from delete_calls [OF assms(4)] obtain evs
    where evs: "tr4 = tr3 @ evs" "evs \<noteq> []" "fst ` set evs = {Deleting}"
    by blast
  have "phase_rank Running \<le> phase_rank Deleting" by simp
  with running_trace [OF assms(1-3)] evs(3)
  have "phases_in_order (tr3 @ evs) \<and> no_phase_after Deleting (tr3 @ evs)"
    by (intro phases_in_order_append [where p = Running]) auto
  moreover have "fst (last (tr3 @ evs)) = Deleting"
    using evs(2,3) by (rule last_phase_append)
  ultimately show ?thesis
    unfolding evs(1) by blast
qed

text \<open>The run, case by case: which phase failed first, if any.\<close>

lemma RunSMITest_cases:
  assumes new: "mesherykube_New c [] = None"
  obtains
    (install) err tr1 where "installing c h opts = (Some err, tr1)"
  | (connect) tr1 err test2 tr2 where "installing c h opts = (None, tr1)"
      "connecting c h opts tr1 = (Some err, test2, tr2)"
  | (run) tr1 test2 tr2 err response3 tr3 where "installing c h opts = (None, tr1)"
      "connecting c h opts tr1 = (None, test2, tr2)"
      "runConformanceTest c test2 (initial_report c h opts) tr2 = (Some err, response3, tr3)"
  | (delete) tr1 test2 tr2 response3 tr3 err tr4 where "installing c h opts = (None, tr1)"
      "connecting c h opts tr1 = (None, test2, tr2)"
      "runConformanceTest c test2 (initial_report c h opts) tr2 = (None, response3, tr3)"
      "deleting c test2 opts tr3 = (Some err, tr4)"
  | (completed) tr1 test2 tr2 response3 tr3 tr4 where "installing c h opts = (None, tr1)"
      "connecting c h opts tr1 = (None, test2, tr2)"
      "runConformanceTest c test2 (initial_report c h opts) tr2 = (None, response3, tr3)"
      "deleting c test2 opts tr3 = (None, tr4)"
proof -
  obtain r1 tr1 where i: "installing c h opts = (r1, tr1)" by (cases "installing c h opts")
  obtain r2 test2 tr2 where k: "connecting c h opts tr1 = (r2, test2, tr2)"
    by (cases "connecting c h opts tr1")
  obtain r3 response3 tr3
    where r: "runConformanceTest c test2 (initial_report c h opts) tr2 = (r3, response3, tr3)"
    by (cases "runConformanceTest c test2 (initial_report c h opts) tr2")
  obtain r4 tr4 where d: "deleting c test2 opts tr3 = (r4, tr4)"
    by (cases "deleting c test2 opts tr3")
  show thesis
  proof (cases r1)
    case (Some err)
    with i install show ?thesis by blast
  next
    case r1: None
    show ?thesis
    proof (cases r2)
      case (Some err)
      with i k r1 connect show ?thesis by blast
    next
      case r2: None
      show ?thesis
      proof (cases r3)
        case (Some err)
        with i k r r1 r2 run show ?thesis by blast
      next
        case r3: None
        show ?thesis
        proof (cases r4)
          case (Some err)
          with i k r d r1 r2 r3 delete show ?thesis by blast
        next
          case None
          with i k r d r1 r2 r3 completed show ?thesis by blast
        qed
      qed
    qed
  qed
qed

text \<open>The frame of the phases on the report.\<close>

lemma runConformanceTest_frame:
  assumes "runConformanceTest c test response tr = (r, response', tr')"
  shows "ID response' = ID response \<and> Date response' = Date response \<and>
         MeshName response' = MeshName response \<and> MeshVersion response' = MeshVersion response \<and>
         Response.Status response' = Response.Status response"
  using assms
  by (auto simp: runConformanceTest_def Let_def split: sum.splits option.splits)

lemma initial_report_fields:
  "ID (initial_report c h opts) = OperationID opts \<and>
   Date (initial_report c h opts) = time_Now c [(Deploying, Call_New)] \<and>
   MeshName (initial_report c h opts) = GetName h \<and>
   MeshVersion (initial_report c h opts) = GetVersion h \<and>
   CasesPassed (initial_report c h opts) = ''0'' \<and>
   PassingPercentage (initial_report c h opts) = ''0'' \<and>
   MoreDetails (initial_report c h opts) = []"
  by (simp add: initial_report_def new_response_def new_test_def)

lemma runConformanceTest_results:
  assumes "conformance_CreateClient c tr (smiAddress test) = None"
    and "CClient_RunTest c (tr @ [(Running, Call_CreateClient (smiAddress test))])
           (new_Request test) = Inr result"
    and "runConformanceTest c test response tr = (err, response', tr')"
  shows "response' = response
           \<lparr>CasesPassed := Casespassed result,
            PassingPercentage := Passpercent result,
            MoreDetails := map new_Detail (Details result)\<rparr>"
  using assms
  by (auto simp: runConformanceTest_def Let_def append_details_map split: option.splits)

lemmas run_eval =
  installConformanceTool_def connectConformanceTool_def runConformanceTest_def
  deleteConformanceTool_def new_test_def new_Request_def new_response_def initial_report_def
  format_d_def decimal.simps osm_adapter_def opts_meshery_def env_happy_def
  calls_fetched_def calls_installed_def calls_connected_def test_connected_def
  calls_tested_def calls_closed_def calls_refetched_def calls_deleted_def
  result_three_def report_three_def

section \<open>Claims about the conformance run\<close>

text \<open>
  C2. Once the cluster client exists, the phases run in the order installing, connecting,
  running, deleting, and the first failure ends the run: the report carries the name of
  the failed phase, the error is the cause under the label of that phase, and the calls
  made are the ones up to the failure, none of them from a later phase. When all four
  phases succeed the status is \<open>completed\<close> and the error is nil.
\<close>

theorem RunSMITest_short_circuit:
  assumes new: "mesherykube_New c [] = None"
  shows "phases_in_order (snd (snd (RunSMITest c h opts))) \<and>
    (\<forall>err tr1.
       installing c h opts = (Some err, tr1) \<longrightarrow>
       RunSMITest c h opts =
         ((initial_report c h opts)\<lparr>Response.Status := ''installing''\<rparr>,
          Some (ErrInstallSmi err), tr1) \<and>
       no_phase_after Installing tr1) \<and>
    (\<forall>tr1 err test2 tr2.
       installing c h opts = (None, tr1) \<and>
       connecting c h opts tr1 = (Some err, test2, tr2) \<longrightarrow>
       RunSMITest c h opts =
         ((initial_report c h opts)\<lparr>Response.Status := ''connecting''\<rparr>,
          Some (ErrConnectSmi err), tr2) \<and>
       no_phase_after Connecting tr2) \<and>
    (\<forall>tr1 test2 tr2 err response3 tr3.
       installing c h opts = (None, tr1) \<and>
       connecting c h opts tr1 = (None, test2, tr2) \<and>
       runConformanceTest c test2 (initial_report c h opts) tr2 = (Some err, response3, tr3) \<longrightarrow>
       RunSMITest c h opts =
         (response3\<lparr>Response.Status := ''running''\<rparr>, Some (ErrRunSmi err), tr3) \<and>
       no_phase_after Running tr3) \<and>
    (\<forall>tr1 test2 tr2 response3 tr3 err tr4.
       installing c h opts = (None, tr1) \<and>
       connecting c h opts tr1 = (None, test2, tr2) \<and>
       runConformanceTest c test2 (initial_report c h opts) tr2 = (None, response3, tr3) \<and>
       deleting c test2 opts tr3 = (Some err, tr4) \<longrightarrow>
       RunSMITest c h opts =
         (response3\<lparr>Response.Status := ''deleting''\<rparr>, Some (ErrDeleteSmi err), tr4)) \<and>
    (\<forall>tr1 test2 tr2 response3 tr3 tr4.
       installing c h opts = (None, tr1) \<and>
       connecting c h opts tr1 = (None, test2, tr2) \<and>
       runConformanceTest c test2 (initial_report c h opts) tr2 = (None, response3, tr3) \<and>
       deleting c test2 opts tr3 = (None, tr4) \<longrightarrow>
       RunSMITest c h opts = (response3\<lparr>Response.Status := ''completed''\<rparr>, None, tr4))"
proof -
  have order: "phases_in_order (snd (snd (RunSMITest c h opts)))"
  proof (rule RunSMITest_cases [OF new, of h opts], goal_cases)
    case (1 err tr1)
    then show ?thesis
      using RunSMITest_install_fails [OF new 1] installing_trace by simp
  next
    case (2 tr1 err test2 tr2)
    then show ?thesis
      using RunSMITest_connect_fails [OF new 2] connecting_trace by simp
  next
    case (3 tr1 test2 tr2 err response3 tr3)
    then show ?thesis
      using RunSMITest_run_fails [OF new 3] running_trace by simp
  next
    case (4 tr1 test2 tr2 response3 tr3 err tr4)
    then show ?thesis
      using RunSMITest_delete_fails [OF new 4] deleting_trace by simp
  next
    case (5 tr1 test2 tr2 response3 tr3 tr4)
    then show ?thesis
      using RunSMITest_completed [OF new 5] deleting_trace by simp
  qed
  have c1: "RunSMITest c h opts =
              ((initial_report c h opts)\<lparr>Response.Status := ''installing''\<rparr>,
               Some (ErrInstallSmi err), tr1) \<and>
            no_phase_after Installing tr1"
    if "installing c h opts = (Some err, tr1)" for err tr1
    using RunSMITest_install_fails [OF new that] installing_trace [OF that] by simp
  have c2: "RunSMITest c h opts =
              ((initial_report c h opts)\<lparr>Response.Status := ''connecting''\<rparr>,
               Some (ErrConnectSmi err), tr2) \<and>
            no_phase_after Connecting tr2"
    if "installing c h opts = (None, tr1) \<and> connecting c h opts tr1 = (Some err, test2, tr2)"
    for tr1 err test2 tr2
  proof -
    from that have i: "installing c h opts = (None, tr1)"
      and k: "connecting c h opts tr1 = (Some err, test2, tr2)" by simp_all
    show ?thesis
      using RunSMITest_connect_fails [OF new i k] connecting_trace [OF i k] by simp
  qed
  have c3: "RunSMITest c h opts =
              (response3\<lparr>Response.Status := ''running''\<rparr>, Some (ErrRunSmi err), tr3) \<and>
            no_phase_after Running tr3"
    if "installing c h opts = (None, tr1) \<and>
        connecting c h opts tr1 = (None, test2, tr2) \<and>
        runConformanceTest c test2 (initial_report c h opts) tr2 = (Some err, response3, tr3)"
    for tr1 test2 tr2 err response3 tr3
  proof -
    from that have i: "installing c h opts = (None, tr1)"
      and k: "connecting c h opts tr1 = (None, test2, tr2)"
      and r: "runConformanceTest c test2 (initial_report c h opts) tr2 =
                (Some err, response3, tr3)" by simp_all
    show ?thesis
      using RunSMITest_run_fails [OF new i k r] running_trace [OF i k r] by simp
  qed
  have c4: "RunSMITest c h opts =
              (response3\<lparr>Response.Status := ''deleting''\<rparr>, Some (ErrDeleteSmi err), tr4)"
    if "installing c h opts = (None, tr1) \<and>
        connecting c h opts tr1 = (None, test2, tr2) \<and>
        runConformanceTest c test2 (initial_report c h opts) tr2 = (None, response3, tr3) \<and>
        deleting c test2 opts tr3 = (Some err, tr4)"
    for tr1 test2 tr2 response3 tr3 err tr4
    using that RunSMITest_delete_fails [OF new] by blast
  have c5: "RunSMITest c h opts = (response3\<lparr>Response.Status := ''completed''\<rparr>, None, tr4)"
    if "installing c h opts = (None, tr1) \<and>
        connecting c h opts tr1 = (None, test2, tr2) \<and>
        runConformanceTest c test2 (initial_report c h opts) tr2 = (None, response3, tr3) \<and>
        deleting c test2 opts tr3 = (None, tr4)"
    for tr1 test2 tr2 response3 tr3 tr4
    using that RunSMITest_completed [OF new] by blast
  from order c1 c2 c3 c4 c5 show ?thesis
    by blast
qed

theorem RunSMITest_short_circuit_witness:
  "RunSMITest env_fetch_fails osm_adapter opts_meshery =
     ((initial_report env_fetch_fails osm_adapter opts_meshery)
        \<lparr>Response.Status := ''installing''\<rparr>,
      Some (ErrInstallSmi (Cause ''dial tcp: i/o timeout'')), calls_fetched) \<and>
   no_phase_after Installing calls_fetched \<and>
   RunSMITest env_endpoint_fails osm_adapter opts_meshery =
     ((initial_report env_endpoint_fails osm_adapter opts_meshery)
        \<lparr>Response.Status := ''connecting''\<rparr>,
      Some (ErrConnectSmi (Cause ''service not found'')), calls_connected) \<and>
   no_phase_after Connecting calls_connected \<and>
   RunSMITest env_test_fails osm_adapter opts_meshery =
     ((initial_report env_test_fails osm_adapter opts_meshery)
        \<lparr>Response.Status := ''running''\<rparr>,
      Some (ErrRunSmi (Cause ''deadline exceeded'')), calls_tested) \<and>
   no_phase_after Running calls_tested \<and>
   RunSMITest env_refetch_fails osm_adapter opts_meshery =
     (report_three\<lparr>Response.Status := ''deleting''\<rparr>,
      Some (ErrDeleteSmi (Cause ''dial tcp: i/o timeout'')), calls_refetched) \<and>
   RunSMITest env_happy osm_adapter opts_meshery =
     (report_three\<lparr>Response.Status := ''completed''\<rparr>, None, calls_deleted) \<and>
   phases_in_order calls_deleted"
proof -
  have n1: "mesherykube_New env_fetch_fails [] = None"
    by (simp add: env_fetch_fails_def env_happy_def)
  have i1: "installing env_fetch_fails osm_adapter opts_meshery =
              (Some (Cause ''dial tcp: i/o timeout''), calls_fetched)"
    by (simp add: env_fetch_fails_def run_eval)
  have n2: "mesherykube_New env_endpoint_fails [] = None"
    by (simp add: env_endpoint_fails_def env_happy_def)
  have i2: "installing env_endpoint_fails osm_adapter opts_meshery = (None, calls_installed)"
    by (simp add: env_endpoint_fails_def run_eval)
  have k2: "connecting env_endpoint_fails osm_adapter opts_meshery calls_installed =
              (Some (Cause ''service not found''), new_test osm_adapter opts_meshery,
               calls_connected)"
    by (simp add: env_endpoint_fails_def run_eval)
  have n3: "mesherykube_New env_test_fails [] = None"
    by (simp add: env_test_fails_def env_happy_def)
  have i3: "installing env_test_fails osm_adapter opts_meshery = (None, calls_installed)"
    by (simp add: env_test_fails_def run_eval)
  have k3: "connecting env_test_fails osm_adapter opts_meshery calls_installed =
              (None, test_connected, calls_connected)"
    by (simp add: env_test_fails_def run_eval)
  have r3: "runConformanceTest env_test_fails test_connected
              (initial_report env_test_fails osm_adapter opts_meshery) calls_connected =
              (Some (Cause ''deadline exceeded''),
               initial_report env_test_fails osm_adapter opts_meshery, calls_tested)"
    by (simp add: env_test_fails_def run_eval)
  have n4: "mesherykube_New env_refetch_fails [] = None"
    by (simp add: env_refetch_fails_def env_happy_def)
  have i4: "installing env_refetch_fails osm_adapter opts_meshery = (None, calls_installed)"
    by (simp add: env_refetch_fails_def run_eval)
  have k4: "connecting env_refetch_fails osm_adapter opts_meshery calls_installed =
              (None, test_connected, calls_connected)"
    by (simp add: env_refetch_fails_def run_eval)
  have r4: "runConformanceTest env_refetch_fails test_connected
              (initial_report env_refetch_fails osm_adapter opts_meshery) calls_connected =
              (None, report_three, calls_closed)"
    by (simp add: env_refetch_fails_def run_eval)
  have d4: "deleting env_refetch_fails test_connected opts_meshery calls_closed =
              (Some (Cause ''dial tcp: i/o timeout''), calls_refetched)"
    by (simp add: env_refetch_fails_def run_eval)
  have n5: "mesherykube_New env_happy [] = None"
    by (simp add: env_happy_def)
  have i5: "installing env_happy osm_adapter opts_meshery = (None, calls_installed)"
    by (simp add: run_eval)
  have k5: "connecting env_happy osm_adapter opts_meshery calls_installed =
              (None, test_connected, calls_connected)"
    by (simp add: run_eval)
  have r5: "runConformanceTest env_happy test_connected
              (initial_report env_happy osm_adapter opts_meshery) calls_connected =
              (None, report_three, calls_closed)"
    by (simp add: run_eval)
  have d5: "deleting env_happy test_connected opts_meshery calls_closed = (None, calls_deleted)"
    by (simp add: run_eval)
  note t1 = RunSMITest_short_circuit [OF n1, of osm_adapter opts_meshery]
  note t2 = RunSMITest_short_circuit [OF n2, of osm_adapter opts_meshery]
  note t3 = RunSMITest_short_circuit [OF n3, of osm_adapter opts_meshery]
  note t4 = RunSMITest_short_circuit [OF n4, of osm_adapter opts_meshery]
  note t5 = RunSMITest_short_circuit [OF n5, of osm_adapter opts_meshery]
  have a1: "RunSMITest env_fetch_fails osm_adapter opts_meshery =
     ((initial_report env_fetch_fails osm_adapter opts_meshery)
        \<lparr>Response.Status := ''installing''\<rparr>,
      Some (ErrInstallSmi (Cause ''dial tcp: i/o timeout'')), calls_fetched) \<and>
     no_phase_after Installing calls_fetched"
    by (rule t1 [THEN conjunct2, THEN conjunct1, rule_format, OF i1])
  have a2: "RunSMITest env_endpoint_fails osm_adapter opts_meshery =
     ((initial_report env_endpoint_fails osm_adapter opts_meshery)
        \<lparr>Response.Status := ''connecting''\<rparr>,
      Some (ErrConnectSmi (Cause ''service not found'')), calls_connected) \<and>
     no_phase_after Connecting calls_connected"
    by (rule t2 [THEN conjunct2, THEN conjunct2, THEN conjunct1, rule_format,
          OF conjI [OF i2 k2]])
  have a3: "RunSMITest env_test_fails osm_adapter opts_meshery =
     ((initial_report env_test_fails osm_adapter opts_meshery)
        \<lparr>Response.Status := ''running''\<rparr>,
      Some (ErrRunSmi (Cause ''deadline exceeded'')), calls_tested) \<and>
     no_phase_after Running calls_tested"
    by (rule t3 [THEN conjunct2, THEN conjunct2, THEN conjunct2, THEN conjunct1, rule_format,
          OF conjI [OF i3 conjI [OF k3 r3]]])
  have a4: "RunSMITest env_refetch_fails osm_adapter opts_meshery =
     (report_three\<lparr>Response.Status := ''deleting''\<rparr>,
      Some (ErrDeleteSmi (Cause ''dial tcp: i/o timeout'')), calls_refetched)"
    by (rule t4 [THEN conjunct2, THEN conjunct2, THEN conjunct2, THEN conjunct2,
          THEN conjunct1, rule_format, OF conjI [OF i4 conjI [OF k4 conjI [OF r4 d4]]]])
  have a5: "RunSMITest env_happy osm_adapter opts_meshery =
     (report_three\<lparr>Response.Status := ''completed''\<rparr>, None, calls_deleted)"
    by (rule t5 [THEN conjunct2, THEN conjunct2, THEN conjunct2, THEN conjunct2,
          THEN conjunct2, rule_format, OF conjI [OF i5 conjI [OF k5 conjI [OF r5 d5]]]])
  have "phases_in_order (snd (snd (RunSMITest env_happy osm_adapter opts_meshery)))"
    by (rule t5 [THEN conjunct1])
  then have a6: "phases_in_order calls_deleted"
    by (simp add: a5)
  from a1 a2 a3 a4 a5 a6 show ?thesis by simp
qed

text \<open>
  C1, as the claim states it, at a run in which the cluster client cannot be created: the
  report is the zero value, without the run identifier, the subject's name or a status.
\<close>

theorem RunSMITest_empty_report_counterexample:
  "RunSMITest env_new_fails osm_adapter opts_meshery =
     (Response_zero,
      Some (ErrSmiInit ''error creating meshery kubernetes client: no rest config''),
      [(Deploying, Call_New)]) \<and>
   OperationID opts_meshery = ''op-17'' \<and> ID Response_zero = [] \<and>
   GetName osm_adapter = ''osm'' \<and> MeshName Response_zero = [] \<and>
   Response.Status Response_zero = []"
  by (simp add: RunSMITest_def env_new_fails_def env_happy_def Response_zero_def
      opts_meshery_def osm_adapter_def)

text \<open>
  C1, amended. In every run in which the cluster client is created, also in one that
  fails, the report carries the run identifier, the timestamp, the subject's name and
  version; its status is \<open>completed\<close> when there is no error and otherwise the name of
  the phase that made the last call, one of the four phases. When the cluster client
  cannot be created the report is the zero value and the error is the initialisation
  error.
\<close>

theorem RunSMITest_report_populated:
  assumes run: "RunSMITest c h opts = (response, err, tr)"
  shows "(mesherykube_New c [] = None \<longrightarrow>
            ID response = OperationID opts \<and>
            Date response = time_Now c [(Deploying, Call_New)] \<and>
            MeshName response = GetName h \<and>
            MeshVersion response = GetVersion h \<and>
            (err = None \<longrightarrow> Response.Status response = ''completed'') \<and>
            (err \<noteq> None \<longrightarrow>
               fst (last tr) \<noteq> Deploying \<and>
               Response.Status response = phase_name (fst (last tr)))) \<and>
         (\<forall>msg. mesherykube_New c [] = Some msg \<longrightarrow>
            response = Response_zero \<and>
            err = Some (ErrSmiInit (''error creating meshery kubernetes client: '' @ msg)))"
proof -
  have ok: "ID response = OperationID opts \<and>
            Date response = time_Now c [(Deploying, Call_New)] \<and>
            MeshName response = GetName h \<and>
            MeshVersion response = GetVersion h \<and>
            (err = None \<longrightarrow> Response.Status response = ''completed'') \<and>
            (err \<noteq> None \<longrightarrow>
               fst (last tr) \<noteq> Deploying \<and>
               Response.Status response = phase_name (fst (last tr)))"
    if new: "mesherykube_New c [] = None"
  proof (rule RunSMITest_cases [OF new, of h opts], goal_cases)
    case (1 e tr1)
    from RunSMITest_install_fails [OF new 1] run installing_trace [OF 1] show ?case
      by (simp add: initial_report_fields)
  next
    case (2 tr1 e test2 tr2)
    from RunSMITest_connect_fails [OF new 2] run connecting_trace [OF 2] show ?case
      by (simp add: initial_report_fields)
  next
    case (3 tr1 test2 tr2 e response3 tr3)
    from RunSMITest_run_fails [OF new 3] run running_trace [OF 3]
      runConformanceTest_frame [OF 3(3)] show ?case
      by (simp add: initial_report_fields)
  next
    case (4 tr1 test2 tr2 response3 tr3 e tr4)
    from RunSMITest_delete_fails [OF new 4] run deleting_trace [OF 4]
      runConformanceTest_frame [OF 4(3)] show ?case
      by (simp add: initial_report_fields)
  next
    case (5 tr1 test2 tr2 response3 tr3 tr4)
    from RunSMITest_completed [OF new 5] run runConformanceTest_frame [OF 5(3)] show ?case
      by (simp add: initial_report_fields)
  qed
  have failed: "response = Response_zero \<and>
                err = Some (ErrSmiInit (''error creating meshery kubernetes client: '' @ msg))"
    if "mesherykube_New c [] = Some msg" for msg
    using RunSMITest_new_fails [OF that, of h opts] run by simp
  from ok failed show ?thesis by blast
qed

theorem RunSMITest_report_populated_witness:
  "RunSMITest env_endpoint_fails osm_adapter opts_meshery =
     ((initial_report env_endpoint_fails osm_adapter opts_meshery)
        \<lparr>Response.Status := ''connecting''\<rparr>,
      Some (ErrConnectSmi (Cause ''service not found'')), calls_connected) \<and>
   mesherykube_New env_endpoint_fails [] = None \<and>
   ID ((initial_report env_endpoint_fails osm_adapter opts_meshery)
        \<lparr>Response.Status := ''connecting''\<rparr>) = ''op-17'' \<and>
   fst (last calls_connected) = Connecting \<and>
   phase_name (fst (last calls_connected)) = ''connecting'' \<and>
   RunSMITest env_new_fails osm_adapter opts_meshery =
     (Response_zero,
      Some (ErrSmiInit ''error creating meshery kubernetes client: no rest config''),
      [(Deploying, Call_New)]) \<and>
   mesherykube_New env_new_fails [] = Some ''no rest config''"
proof -
  have n: "mesherykube_New env_endpoint_fails [] = None"
    by (simp add: env_endpoint_fails_def env_happy_def)
  have run: "RunSMITest env_endpoint_fails osm_adapter opts_meshery =
     ((initial_report env_endpoint_fails osm_adapter opts_meshery)
        \<lparr>Response.Status := ''connecting''\<rparr>,
      Some (ErrConnectSmi (Cause ''service not found'')), calls_connected)"
    by (simp add: RunSMITest_def env_endpoint_fails_def run_eval)
  have m: "mesherykube_New env_new_fails [] = Some ''no rest config''"
    by (simp add: env_new_fails_def)
  have run': "RunSMITest env_new_fails osm_adapter opts_meshery =
     (Response_zero,
      Some (ErrSmiInit ''error creating meshery kubernetes client: no rest config''),
      [(Deploying, Call_New)])"
    by (simp add: RunSMITest_def env_new_fails_def)
  have "ID ((initial_report env_endpoint_fails osm_adapter opts_meshery)
          \<lparr>Response.Status := ''connecting''\<rparr>) = OperationID opts_meshery \<and>
        fst (last calls_connected) \<noteq> Deploying \<and>
        Response.Status ((initial_report env_endpoint_fails osm_adapter opts_meshery)
          \<lparr>Response.Status := ''connecting''\<rparr>) = phase_name (fst (last calls_connected))"
    using RunSMITest_report_populated [OF run, THEN conjunct1, rule_format, OF n] by simp
  moreover have "fst (last calls_connected) = Connecting"
    by (simp add: run_eval)
  moreover have "Response_zero = Response_zero \<and>
      Some (ErrSmiInit ''error creating meshery kubernetes client: no rest config'') =
      Some (ErrSmiInit (''error creating meshery kubernetes client: '' @ ''no rest config''))"
    by (rule RunSMITest_report_populated [OF run', THEN conjunct2, rule_format, OF m])
  ultimately show ?thesis
    using n m run run' by (simp add: opts_meshery_def)
qed

text \<open>
  C9. When the installing phase or the connecting phase fails, the returned report is the
  one constructed at the start with only its status changed: the pass count and the
  percentage are \<open>0\<close>, there are no details, and the run identifier, the date and the
  subject's name and version are as set at construction.
\<close>

theorem RunSMITest_early_failure_frame:
  assumes new: "mesherykube_New c [] = None"
    and run: "RunSMITest c h opts = (response, err, tr)"
    and early: "installing c h opts = (Some e, tr1) \<or>
                (installing c h opts = (None, tr1) \<and>
                 connecting c h opts tr1 = (Some e, test2, tr2))"
  shows "response = (initial_report c h opts)\<lparr>Response.Status := Response.Status response\<rparr> \<and>
         CasesPassed response = ''0'' \<and>
         PassingPercentage response = ''0'' \<and>
         MoreDetails response = [] \<and>
         ID response = OperationID opts \<and>
         Date response = time_Now c [(Deploying, Call_New)] \<and>
         MeshName response = GetName h \<and>
         MeshVersion response = GetVersion h"
proof -
  from early have "\<exists>s. response = (initial_report c h opts)\<lparr>Response.Status := s\<rparr>"
  proof
    assume "installing c h opts = (Some e, tr1)"
    from RunSMITest_install_fails [OF new this] run show ?thesis by auto
  next
    assume "installing c h opts = (None, tr1) \<and> connecting c h opts tr1 = (Some e, test2, tr2)"
    then have i: "installing c h opts = (None, tr1)"
      and k: "connecting c h opts tr1 = (Some e, test2, tr2)" by simp_all
    from RunSMITest_connect_fails [OF new i k] run show ?thesis by auto
  qed
  then obtain s where "response = (initial_report c h opts)\<lparr>Response.Status := s\<rparr>" ..
  then show ?thesis
    by (simp add: initial_report_fields)
qed

theorem RunSMITest_early_failure_frame_witness:
  "mesherykube_New env_endpoint_fails [] = None \<and>
   RunSMITest env_endpoint_fails osm_adapter opts_meshery =
     ((initial_report env_endpoint_fails osm_adapter opts_meshery)
        \<lparr>Response.Status := ''connecting''\<rparr>,
      Some (ErrConnectSmi (Cause ''service not found'')), calls_connected) \<and>
   installing env_endpoint_fails osm_adapter opts_meshery = (None, calls_installed) \<and>
   connecting env_endpoint_fails osm_adapter opts_meshery calls_installed =
     (Some (Cause ''service not found''), new_test osm_adapter opts_meshery, calls_connected) \<and>
   CasesPassed ((initial_report env_endpoint_fails osm_adapter opts_meshery)
     \<lparr>Response.Status := ''connecting''\<rparr>) = ''0'' \<and>
   MoreDetails ((initial_report env_endpoint_fails osm_adapter opts_meshery)
     \<lparr>Response.Status := ''connecting''\<rparr>) = [] \<and>
   ID ((initial_report env_endpoint_fails osm_adapter opts_meshery)
     \<lparr>Response.Status := ''connecting''\<rparr>) = ''op-17'' \<and>
   MeshName ((initial_report env_endpoint_fails osm_adapter opts_meshery)
     \<lparr>Response.Status := ''connecting''\<rparr>) = ''osm''"
proof -
  have n: "mesherykube_New env_endpoint_fails [] = None"
    by (simp add: env_endpoint_fails_def env_happy_def)
  have run: "RunSMITest env_endpoint_fails osm_adapter opts_meshery =
     ((initial_report env_endpoint_fails osm_adapter opts_meshery)
        \<lparr>Response.Status := ''connecting''\<rparr>,
      Some (ErrConnectSmi (Cause ''service not found'')), calls_connected)"
    by (simp add: RunSMITest_def env_endpoint_fails_def run_eval)
  have i: "installing env_endpoint_fails osm_adapter opts_meshery = (None, calls_installed)"
    by (simp add: env_endpoint_fails_def run_eval)
  have k: "connecting env_endpoint_fails osm_adapter opts_meshery calls_installed =
             (Some (Cause ''service not found''), new_test osm_adapter opts_meshery,
              calls_connected)"
    by (simp add: env_endpoint_fails_def run_eval)
  from RunSMITest_early_failure_frame [OF n run disjI2 [OF conjI [OF i k]]]
  show ?thesis
    using n run i k by (simp add: opts_meshery_def osm_adapter_def)
qed

text \<open>
  C10. When installing and connecting succeed, the client session opens and the test call
  returns a result, but closing the session fails, \<open>RunSMITest\<close> returns the error of the
  running phase with the status \<open>running\<close>, and the report holds the results all the same:
  the pass count, the percentage and, for every record of the result, a detail at the
  same position with the record's specification identifier, elapsed time, assertion
  text, result, failure reason, capability and status.
\<close>

theorem RunSMITest_close_failure:
  assumes new: "mesherykube_New c [] = None"
    and i: "installing c h opts = (None, tr1)"
    and k: "connecting c h opts tr1 = (None, test2, tr2)"
    and cl: "conformance_CreateClient c tr2 (smiAddress test2) = None"
    and rt: "CClient_RunTest c (tr2 @ [(Running, Call_CreateClient (smiAddress test2))])
               (new_Request test2) = Inr result"
    and cf: "cClient_Close c
               (tr2 @ [(Running, Call_CreateClient (smiAddress test2)),
                       (Running, Call_RunTest (new_Request test2))]) = Some msg"
  shows "fst (RunSMITest c h opts) =
           (initial_report c h opts)
             \<lparr>CasesPassed := Casespassed result,
              PassingPercentage := Passpercent result,
              MoreDetails := map new_Detail (Details result),
              Response.Status := ''running''\<rparr> \<and>
         fst (snd (RunSMITest c h opts)) = Some (ErrRunSmi (Cause msg)) \<and>
         Response.Status (fst (RunSMITest c h opts)) = ''running'' \<and>
         CasesPassed (fst (RunSMITest c h opts)) = Casespassed result \<and>
         PassingPercentage (fst (RunSMITest c h opts)) = Passpercent result \<and>
         length (MoreDetails (fst (RunSMITest c h opts))) = length (Details result) \<and>
         MoreDetails (fst (RunSMITest c h opts)) = map new_Detail (Details result) \<and>
         (\<forall>n < length (Details result).
            SmiSpecification (MoreDetails (fst (RunSMITest c h opts)) ! n) =
              Smispec (Details result ! n) \<and>
            Detail.Time (MoreDetails (fst (RunSMITest c h opts)) ! n) =
              conformance_Detail.Time (Details result ! n) \<and>
            Detail.Assertions (MoreDetails (fst (RunSMITest c h opts)) ! n) =
              conformance_Detail.Assertions (Details result ! n) \<and>
            Detail.Result (MoreDetails (fst (RunSMITest c h opts)) ! n) =
              conformance_Detail.Result (Details result ! n) \<and>
            Detail.Reason (MoreDetails (fst (RunSMITest c h opts)) ! n) =
              conformance_Detail.Reason (Details result ! n) \<and>
            Detail.Capability (MoreDetails (fst (RunSMITest c h opts)) ! n) =
              conformance_Detail.Capability (Details result ! n) \<and>
            Detail.Status (MoreDetails (fst (RunSMITest c h opts)) ! n) =
              conformance_Detail.Status (Details result ! n))"
proof -
  obtain r3 response3 tr3
    where r: "runConformanceTest c test2 (initial_report c h opts) tr2 = (r3, response3, tr3)"
    by (cases "runConformanceTest c test2 (initial_report c h opts) tr2")
  from r cl rt cf have r3: "r3 = Some (Cause msg)"
    by (simp add: runConformanceTest_def Let_def)
  from runConformanceTest_results [OF cl rt r]
  have resp: "response3 = (initial_report c h opts)
                \<lparr>CasesPassed := Casespassed result,
                 PassingPercentage := Passpercent result,
                 MoreDetails := map new_Detail (Details result)\<rparr>" .
  from RunSMITest_run_fails [OF new i k r [unfolded r3]]
  show ?thesis
    by (simp add: resp new_Detail_def)
qed

theorem RunSMITest_close_failure_witness:
  "mesherykube_New env_close_fails [] = None \<and>
   installing env_close_fails osm_adapter opts_meshery = (None, calls_installed) \<and>
   connecting env_close_fails osm_adapter opts_meshery calls_installed =
     (None, test_connected, calls_connected) \<and>
   conformance_CreateClient env_close_fails calls_connected (smiAddress test_connected) = None \<and>
   CClient_RunTest env_close_fails
     (calls_connected @ [(Running, Call_CreateClient (smiAddress test_connected))])
     (new_Request test_connected) = Inr result_one \<and>
   cClient_Close env_close_fails
     (calls_connected @ [(Running, Call_CreateClient (smiAddress test_connected)),
                         (Running, Call_RunTest (new_Request test_connected))]) =
     Some ''connection is closing'' \<and>
   fst (snd (RunSMITest env_close_fails osm_adapter opts_meshery)) =
     Some (ErrRunSmi (Cause ''connection is closing'')) \<and>
   Response.Status (fst (RunSMITest env_close_fails osm_adapter opts_meshery)) = ''running'' \<and>
   CasesPassed (fst (RunSMITest env_close_fails osm_adapter opts_meshery)) = ''3'' \<and>
   PassingPercentage (fst (RunSMITest env_close_fails osm_adapter opts_meshery)) = ''100'' \<and>
   length (MoreDetails (fst (RunSMITest env_close_fails osm_adapter opts_meshery))) = 1 \<and>
   SmiSpecification (MoreDetails (fst (RunSMITest env_close_fails osm_adapter opts_meshery)) ! 0) =
     ''traffic-access'' \<and>
   Detail.Time (MoreDetails (fst (RunSMITest env_close_fails osm_adapter opts_meshery)) ! 0) =
     ''1.2s'' \<and>
   Detail.Assertions (MoreDetails (fst (RunSMITest env_close_fails osm_adapter opts_meshery)) ! 0) =
     ''3'' \<and>
   Detail.Result (MoreDetails (fst (RunSMITest env_close_fails osm_adapter opts_meshery)) ! 0) =
     ''passed'' \<and>
   Detail.Reason (MoreDetails (fst (RunSMITest env_close_fails osm_adapter opts_meshery)) ! 0) =
     [] \<and>
   Detail.Capability (MoreDetails (fst (RunSMITest env_close_fails osm_adapter opts_meshery)) ! 0) =
     ''FULL'' \<and>
   Detail.Status (MoreDetails (fst (RunSMITest env_close_fails osm_adapter opts_meshery)) ! 0) =
     ''passing''"
proof -
  have n: "mesherykube_New env_close_fails [] = None"
    by (simp add: env_close_fails_def env_happy_def)
  have i: "installing env_close_fails osm_adapter opts_meshery = (None, calls_installed)"
    by (simp add: env_close_fails_def run_eval)
  have k: "connecting env_close_fails osm_adapter opts_meshery calls_installed =
             (None, test_connected, calls_connected)"
    by (simp add: env_close_fails_def run_eval)
  have cl: "conformance_CreateClient env_close_fails calls_connected
              (smiAddress test_connected) = None"
    by (simp add: env_close_fails_def env_happy_def)
  have rt: "CClient_RunTest env_close_fails
              (calls_connected @ [(Running, Call_CreateClient (smiAddress test_connected))])
              (new_Request test_connected) = Inr result_one"
    by (simp add: env_close_fails_def env_happy_def)
  have cf: "cClient_Close env_close_fails
              (calls_connected @ [(Running, Call_CreateClient (smiAddress test_connected)),
                                  (Running, Call_RunTest (new_Request test_connected))]) =
            Some ''connection is closing''"
    by (simp add: env_close_fails_def env_happy_def)
  have d: "Details result_one = [raw_access]"
    by (simp add: result_one_def)
  note t = RunSMITest_close_failure [OF n i k cl rt cf]
  note heads = t [THEN conjunct2, THEN conjunct1] t [THEN conjunct2, THEN conjunct2, THEN conjunct1]
    t [THEN conjunct2, THEN conjunct2, THEN conjunct2, THEN conjunct1]
    t [THEN conjunct2, THEN conjunct2, THEN conjunct2, THEN conjunct2, THEN conjunct1]
    t [THEN conjunct2, THEN conjunct2, THEN conjunct2, THEN conjunct2, THEN conjunct2,
       THEN conjunct1]
  have zero: "(0::nat) < length (Details result_one)"
    by (simp add: d)
  note fields = t [THEN conjunct2, THEN conjunct2, THEN conjunct2, THEN conjunct2,
    THEN conjunct2, THEN conjunct2, THEN conjunct2, rule_format, OF zero]
  from heads fields show ?thesis
    using n i k cl rt cf by (simp add: d result_one_def raw_access_def)
qed

text \<open>
  C5. When the client session opens and the test call returns a result, the report that
  \<open>runConformanceTest\<close> leaves has as many details as the result has records; the detail
  at each position carries the specification identifier, elapsed time, assertion text,
  result, failure reason, capability and status of the record at that position, so no
  record is dropped, doubled or moved; and the pass count and the percentage are those
  of the result. Whether closing the session fails makes no difference.
\<close>

theorem runConformanceTest_keeps_order:
  assumes "conformance_CreateClient c tr (smiAddress test) = None"
    and "CClient_RunTest c (tr @ [(Running, Call_CreateClient (smiAddress test))])
           (new_Request test) = Inr result"
    and "runConformanceTest c test response tr = (err, response', tr')"
  shows "length (MoreDetails response') = length (Details result) \<and>
         (\<forall>n < length (Details result).
            MoreDetails response' ! n = new_Detail (Details result ! n)) \<and>
         MoreDetails response' = map new_Detail (Details result) \<and>
         CasesPassed response' = Casespassed result \<and>
         PassingPercentage response' = Passpercent result \<and>
         map SmiSpecification (MoreDetails response') = map Smispec (Details result) \<and>
         map Detail.Time (MoreDetails response') =
           map conformance_Detail.Time (Details result) \<and>
         map Detail.Assertions (MoreDetails response') =
           map conformance_Detail.Assertions (Details result) \<and>
         map Detail.Result (MoreDetails response') =
           map conformance_Detail.Result (Details result) \<and>
         map Detail.Reason (MoreDetails response') =
           map conformance_Detail.Reason (Details result) \<and>
         map Detail.Capability (MoreDetails response') =
           map conformance_Detail.Capability (Details result) \<and>
         map Detail.Status (MoreDetails response') =
           map conformance_Detail.Status (Details result) \<and>
         (\<forall>n < length (Details result).
            SmiSpecification (MoreDetails response' ! n) = Smispec (Details result ! n) \<and>
            Detail.Time (MoreDetails response' ! n) =
              conformance_Detail.Time (Details result ! n) \<and>
            Detail.Assertions (MoreDetails response' ! n) =
              conformance_Detail.Assertions (Details result ! n) \<and>
            Detail.Result (MoreDetails response' ! n) =
              conformance_Detail.Result (Details result ! n) \<and>
            Detail.Reason (MoreDetails response' ! n) =
              conformance_Detail.Reason (Details result ! n) \<and>
            Detail.Capability (MoreDetails response' ! n) =
              conformance_Detail.Capability (Details result ! n) \<and>
            Detail.Status (MoreDetails response' ! n) =
              conformance_Detail.Status (Details result ! n))"
  using runConformanceTest_results [OF assms]
  by (simp add: new_Detail_def comp_def)

theorem runConformanceTest_keeps_order_witness:
  "conformance_CreateClient env_happy calls_connected (smiAddress test_connected) = None \<and>
   CClient_RunTest env_happy
     (calls_connected @ [(Running, Call_CreateClient (smiAddress test_connected))])
     (new_Request test_connected) = Inr result_three \<and>
   map Smispec (Details result_three) = [''traffic-access'', ''traffic-split'', ''traffic-spec''] \<and>
   length (MoreDetails (fst (snd (runConformanceTest env_happy test_connected
     (initial_report env_happy osm_adapter opts_meshery) calls_connected)))) = 3 \<and>
   map SmiSpecification (MoreDetails (fst (snd (runConformanceTest env_happy test_connected
     (initial_report env_happy osm_adapter opts_meshery) calls_connected)))) =
     [''traffic-access'', ''traffic-split'', ''traffic-spec''] \<and>
   map Detail.Time (MoreDetails (fst (snd (runConformanceTest env_happy test_connected
     (initial_report env_happy osm_adapter opts_meshery) calls_connected)))) =
     [''1.2s'', ''0.7s'', ''2.0s''] \<and>
   map Detail.Assertions (MoreDetails (fst (snd (runConformanceTest env_happy test_connected
     (initial_report env_happy osm_adapter opts_meshery) calls_connected)))) =
     [''3'', ''2'', ''3''] \<and>
   map Detail.Result (MoreDetails (fst (snd (runConformanceTest env_happy test_connected
     (initial_report env_happy osm_adapter opts_meshery) calls_connected)))) =
     [''passed'', ''failed'', ''passed''] \<and>
   map Detail.Reason (MoreDetails (fst (snd (runConformanceTest env_happy test_connected
     (initial_report env_happy osm_adapter opts_meshery) calls_connected)))) =
     [[], ''weights ignored'', []] \<and>
   map Detail.Capability (MoreDetails (fst (snd (runConformanceTest env_happy test_connected
     (initial_report env_happy osm_adapter opts_meshery) calls_connected)))) =
     [''FULL'', ''HALF'', ''FULL''] \<and>
   map Detail.Status (MoreDetails (fst (snd (runConformanceTest env_happy test_connected
     (initial_report env_happy osm_adapter opts_meshery) calls_connected)))) =
     [''passing'', ''failing'', ''passing''] \<and>
   CasesPassed (fst (snd (runConformanceTest env_happy test_connected
     (initial_report env_happy osm_adapter opts_meshery) calls_connected))) = ''8'' \<and>
   PassingPercentage (fst (snd (runConformanceTest env_happy test_connected
     (initial_report env_happy osm_adapter opts_meshery) calls_connected))) = ''100''"
proof -
  have cl: "conformance_CreateClient env_happy calls_connected (smiAddress test_connected) = None"
    by (simp add: env_happy_def)
  have rt: "CClient_RunTest env_happy
              (calls_connected @ [(Running, Call_CreateClient (smiAddress test_connected))])
              (new_Request test_connected) = Inr result_three"
    by (simp add: env_happy_def)
  obtain err response' tr'
    where r: "runConformanceTest env_happy test_connected
                (initial_report env_happy osm_adapter opts_meshery) calls_connected =
                (err, response', tr')"
    by (cases "runConformanceTest env_happy test_connected
                 (initial_report env_happy osm_adapter opts_meshery) calls_connected")
  have raw: "Details result_three = [raw_access, raw_split, raw_spec]"
    by (simp add: result_three_def)
  note t = runConformanceTest_keeps_order [OF cl rt r]
  note parts = t [THEN conjunct1]
    t [THEN conjunct2, THEN conjunct2, THEN conjunct2]
  from parts show ?thesis
    using cl rt
    by (simp add: r raw result_three_def raw_access_def raw_split_def raw_spec_def)
qed

text \<open>
  C3, as the claim states it, at a result of three records: the first record carries the
  specification version \<open>v1alpha3\<close>, and the detail built from it has an empty one.
\<close>

theorem runConformanceTest_version_counterexample:
  "runConformanceTest env_happy test_connected
     (initial_report env_happy osm_adapter opts_meshery) calls_connected =
     (None, report_three, calls_closed) \<and>
   Details result_three = [raw_access, raw_split, raw_spec] \<and>
   Specversion raw_access = ''v1alpha3'' \<and>
   MoreDetails report_three = [new_Detail raw_access, new_Detail raw_split, new_Detail raw_spec] \<and>
   SmiVersion (new_Detail raw_access) = []"
  by (simp add: run_eval new_Detail_def raw_access_def)

text \<open>
  C3, amended. For every record of the result, the report holds one detail, at the same
  position, with the record's specification identifier, elapsed time, assertion text,
  result, failure reason, capability and status.
\<close>

theorem runConformanceTest_detail_fields:
  assumes "conformance_CreateClient c tr (smiAddress test) = None"
    and "CClient_RunTest c (tr @ [(Running, Call_CreateClient (smiAddress test))])
           (new_Request test) = Inr result"
    and "runConformanceTest c test response tr = (err, response', tr')"
    and "n < length (Details result)"
  shows "n < length (MoreDetails response') \<and>
         SmiSpecification (MoreDetails response' ! n) = Smispec (Details result ! n) \<and>
         Detail.Time (MoreDetails response' ! n) = conformance_Detail.Time (Details result ! n) \<and>
         Detail.Assertions (MoreDetails response' ! n) =
           conformance_Detail.Assertions (Details result ! n) \<and>
         Detail.Result (MoreDetails response' ! n) =
           conformance_Detail.Result (Details result ! n) \<and>
         Detail.Reason (MoreDetails response' ! n) =
           conformance_Detail.Reason (Details result ! n) \<and>
         Detail.Capability (MoreDetails response' ! n) =
           conformance_Detail.Capability (Details result ! n) \<and>
         Detail.Status (MoreDetails response' ! n) =
           conformance_Detail.Status (Details result ! n)"
  using runConformanceTest_results [OF assms(1-3)] assms(4)
  by (simp add: new_Detail_def)

theorem runConformanceTest_detail_fields_witness:
  "conformance_CreateClient env_happy calls_connected (smiAddress test_connected) = None \<and>
   CClient_RunTest env_happy
     (calls_connected @ [(Running, Call_CreateClient (smiAddress test_connected))])
     (new_Request test_connected) = Inr result_three \<and>
   runConformanceTest env_happy test_connected
     (initial_report env_happy osm_adapter opts_meshery) calls_connected =
     (None, report_three, calls_closed) \<and>
   (1::nat) < length (Details result_three) \<and>
   Details result_three ! 1 = raw_split \<and>
   SmiSpecification (MoreDetails report_three ! 1) = ''traffic-split'' \<and>
   Detail.Time (MoreDetails report_three ! 1) = ''0.7s'' \<and>
   Detail.Assertions (MoreDetails report_three ! 1) = ''2'' \<and>
   Detail.Result (MoreDetails report_three ! 1) = ''failed'' \<and>
   Detail.Reason (MoreDetails report_three ! 1) = ''weights ignored'' \<and>
   Detail.Capability (MoreDetails report_three ! 1) = ''HALF'' \<and>
   Detail.Status (MoreDetails report_three ! 1) = ''failing''"
proof -
  have cl: "conformance_CreateClient env_happy calls_connected (smiAddress test_connected) = None"
    by (simp add: env_happy_def)
  have rt: "CClient_RunTest env_happy
              (calls_connected @ [(Running, Call_CreateClient (smiAddress test_connected))])
              (new_Request test_connected) = Inr result_three"
    by (simp add: env_happy_def)
  have r: "runConformanceTest env_happy test_connected
             (initial_report env_happy osm_adapter opts_meshery) calls_connected =
             (None, report_three, calls_closed)"
    by (simp add: run_eval)
  have n: "(1::nat) < length (Details result_three)"
    by (simp add: result_three_def)
  have d: "Details result_three ! 1 = raw_split"
    by (simp add: result_three_def)
  from runConformanceTest_detail_fields [OF cl rt r n]
  show ?thesis
    using cl rt r n d by (simp add: raw_split_def)
qed

text \<open>
  C4. A run with an empty \<open>Namespace\<close> in which nothing fails: the manifest is applied and
  deleted with the empty namespace, and the endpoint is looked up in the empty namespace.
  The name \<open>meshery\<close> is in none of the calls.
\<close>

theorem RunSMITest_empty_namespace:
  "SMITestOptions.Namespace opts_no_namespace = [] \<and>
   snd (RunSMITest env_happy osm_adapter opts_no_namespace) =
     (None,
      [(Deploying, Call_New),
       (Installing, Call_ReadRemoteFile ''https://example.org/smi-conformance.yaml''),
       (Installing,
        Call_ApplyManifest ''kind: Deployment'' \<lparr>ApplyOptions.Namespace = [], Delete = False\<rparr>),
       (Installing, Call_Sleep 20),
       (Connecting, Call_GetServiceEndpoint ''background'' ''smi-conformance'' []),
       (Running, Call_CreateClient ''10.0.0.7:10011''),
       (Running, Call_RunTest (new_Request test_connected)),
       (Running, Call_Close),
       (Deleting, Call_ReadRemoteFile ''https://example.org/smi-conformance.yaml''),
       (Deleting,
        Call_ApplyManifest ''kind: Deployment'' \<lparr>ApplyOptions.Namespace = [], Delete = True\<rparr>)])"
  by (simp add: RunSMITest_def opts_no_namespace_def run_eval)

end
